theory Spec2Isabelle
  imports Complex_Main "HOL-Library.Sublist"
begin

section \<open>Strings and paths\<close>

text \<open>
  File names are strings of 8-bit characters; \<open>str.lower\<close> is modelled on the ASCII
  letters, which is all the substring tests of the source look at.
\<close>

definition lower_char :: "char \<Rightarrow> char" where
  "lower_char c =
     (case map_of (zip ''ABCDEFGHIJKLMNOPQRSTUVWXYZ'' ''abcdefghijklmnopqrstuvwxyz'') c of
        Some d \<Rightarrow> d
      | None \<Rightarrow> c)"

definition lower :: "string \<Rightarrow> string" where
  "lower s = map lower_char s"

text \<open>Python's \<open>pat in s\<close> on two strings: \<open>pat\<close> occurs in \<open>s\<close> as a contiguous block.\<close>

fun substring_in :: "string \<Rightarrow> string \<Rightarrow> bool" where
  "substring_in pat [] = (pat = [])"
| "substring_in pat (c # cs) = (prefix pat (c # cs) \<or> substring_in pat cs)"

text \<open>\<open>str.rfind\<close> for one character: the last index where it occurs.\<close>

primrec rfind :: "char \<Rightarrow> string \<Rightarrow> nat option" where
  "rfind c [] = None"
| "rfind c (x # xs) =
     (case rfind c xs of
        Some i \<Rightarrow> Some (Suc i)
      | None \<Rightarrow> if x = c then Some 0 else None)"

text \<open>
  A \<open>pathlib.Path\<close> is the list of its components. \<open>name\<close>, \<open>suffix\<close> and \<open>stem\<close>
  follow pathlib: the suffix starts at the last dot of the name, unless that dot is the
  first or the last character of the name.
\<close>

type_synonym path = "string list"

definition path_name :: "path \<Rightarrow> string" where
  "path_name p = (if p = [] then [] else last p)"

definition path_parent :: "path \<Rightarrow> path" where
  "path_parent p = butlast p"

definition joinpath :: "path \<Rightarrow> string \<Rightarrow> path" where
  "joinpath p s = p @ [s]"

definition path_suffix :: "path \<Rightarrow> string" where
  "path_suffix p =
     (let n = path_name p in
      case rfind CHR ''.'' n of
        Some i \<Rightarrow> if 0 < i \<and> Suc i < length n then drop i n else []
      | None \<Rightarrow> [])"

definition path_stem :: "path \<Rightarrow> string" where
  "path_stem p =
     (let n = path_name p in
      case rfind CHR ''.'' n of
        Some i \<Rightarrow> if 0 < i \<and> Suc i < length n then take i n else n
      | None \<Rightarrow> n)"

definition with_suffix :: "path \<Rightarrow> string \<Rightarrow> path" where
  "with_suffix p s = joinpath (path_parent p) (path_stem p @ s)"

section \<open>Model type from the file name (batch\_convert.py)\<close>

definition determine_model_type :: "path \<Rightarrow> string" where
  "determine_model_type model_path =
     (let name = lower (path_name model_path) in
      if substring_in ''yolov7'' name \<or> path_suffix model_path = ''.ckpt'' then
        (if substring_in ''tiny'' name then ''yolov7-tiny''
         else if substring_in ''x'' name then ''yolov7-x''
         else if substring_in ''e6'' name then ''yolov7-e6''
         else ''yolov7'')
      else if substring_in ''yolov5'' name then
        (if substring_in ''s'' name then ''yolov5s''
         else if substring_in ''m'' name then ''yolov5m''
         else if substring_in ''l'' name then ''yolov5l''
         else ''yolov5'')
      else if substring_in ''yolov8'' name then ''yolov8''
      else ''unknown'')"

section \<open>Python values, JSON and exceptions\<close>

text \<open>
  A checkpoint is whatever \<open>torch.load\<close> unpickles, so its fields hold arbitrary Python
  values. \<open>PObject\<close> stands for every object the \<open>json\<close> module cannot encode (a tensor,
  a module, a set, ...); its flag says whether the object has a \<open>state_dict\<close> method.
  A float is identified with the number its \<open>repr\<close> denotes, a float used as a dictionary
  key with that \<open>repr\<close>. \<open>KOther\<close> is a hashable key of any other type (a tuple, bytes, ...).
  Dictionaries keep insertion order, so they are association lists.
\<close>

datatype pykey = KStr string | KInt int | KBool bool | KNone | KFloat string | KOther

datatype pyval =
    PNone
  | PBool bool
  | PInt int
  | PFloat rat
  | PStr string
  | PList "pyval list"
  | PDict "(pykey \<times> pyval) list"
  | PObject bool

datatype json =
    JNull
  | JBool bool
  | JNum rat
  | JStr string
  | JArr "json list"
  | JObj "(string \<times> json) list"

datatype exn =
    ValueError
  | NotImplementedError
  | TypeError
  | IndexError
  | OSError
  | JSONDecodeError
  | ExternalError string

text \<open>The decimal text of an integer, as \<open>json\<close> writes an \<open>int\<close> key.\<close>

function str_of_nat :: "nat \<Rightarrow> string" where
  "str_of_nat n =
     (if n < 10 then [''0123456789'' ! n]
      else str_of_nat (n div 10) @ [''0123456789'' ! (n mod 10)])"
  by pat_completeness auto
termination
  by (relation "measure id") auto

declare str_of_nat.simps [simp del]

definition str_of_int :: "int \<Rightarrow> string" where
  "str_of_int i = (if i < 0 then CHR ''-'' # str_of_nat (nat (- i)) else str_of_nat (nat i))"

text \<open>
  \<open>json.dump\<close>: keys that are \<open>str\<close>, \<open>int\<close>, \<open>float\<close>, \<open>bool\<close> or \<open>None\<close> become
  strings, any other key and any object the encoder does not know raise \<open>TypeError\<close>
  (the result \<open>None\<close> here).
\<close>

definition key_to_json :: "pykey \<Rightarrow> string option" where
  "key_to_json k =
     (case k of
        KStr s \<Rightarrow> Some s
      | KInt i \<Rightarrow> Some (str_of_int i)
      | KBool b \<Rightarrow> Some (if b then ''true'' else ''false'')
      | KNone \<Rightarrow> Some ''null''
      | KFloat r \<Rightarrow> Some r
      | KOther \<Rightarrow> None)"

fun to_json :: "pyval \<Rightarrow> json option" where
  "to_json PNone = Some JNull"
| "to_json (PBool b) = Some (JBool b)"
| "to_json (PInt i) = Some (JNum (of_int i))"
| "to_json (PFloat r) = Some (JNum r)"
| "to_json (PStr s) = Some (JStr s)"
| "to_json (PList xs) = map_option JArr (those (map to_json xs))"
| "to_json (PDict kvs) =
     map_option JObj
       (those (map (\<lambda>(k, v). case key_to_json k of
                                  None \<Rightarrow> None
                                | Some s \<Rightarrow> map_option (Pair s) (to_json v)) kvs))"
| "to_json (PObject b) = None"

text \<open>\<open>len(x)\<close>: defined on strings, lists and dictionaries.\<close>

definition py_len :: "pyval \<Rightarrow> exn + nat" where
  "py_len v =
     (case v of
        PStr s \<Rightarrow> Inr (length s)
      | PList xs \<Rightarrow> Inr (length xs)
      | PDict kvs \<Rightarrow> Inr (length kvs)
      | _ \<Rightarrow> Inl TypeError)"

text \<open>\<open>xs[0]\<close> on a list.\<close>

definition py_index0 :: "'a list \<Rightarrow> exn + 'a" where
  "py_index0 xs = (case xs of [] \<Rightarrow> Inl IndexError | x # _ \<Rightarrow> Inr x)"

text \<open>\<open>list(v.values()) if isinstance(v, dict) else v\<close>, as both class-name readers do.\<close>

definition values_or_self :: "pyval \<Rightarrow> pyval" where
  "values_or_self v = (case v of PDict kvs \<Rightarrow> PList (map snd kvs) | _ \<Rightarrow> v)"

text \<open>
  A parsed JSON object is the list of its members in text order; Python's \<open>dict\<close> keeps
  the last value of a repeated key.
\<close>

definition json_get :: "json \<Rightarrow> string \<Rightarrow> json option" where
  "json_get j k = (case j of JObj kvs \<Rightarrow> map_of (rev kvs) k | _ \<Rightarrow> None)"

text \<open>Python's \<open>k in config\<close> for a string \<open>k\<close> and a parsed JSON value.\<close>

definition json_contains :: "string \<Rightarrow> json \<Rightarrow> exn + bool" where
  "json_contains k j =
     (case j of
        JObj kvs \<Rightarrow> Inr (k \<in> fst ` set kvs)
      | JArr xs \<Rightarrow> Inr (JStr k \<in> set xs)
      | JStr s \<Rightarrow> Inr (substring_in k s)
      | _ \<Rightarrow> Inl TypeError)"

section \<open>The file system, the converter's state and the external tools\<close>

text \<open>
  A file is known by what \<open>json.load\<close> would make of it: \<open>JsonText j\<close> parses to \<open>j\<close>,
  \<open>Partial\<close> is what an interrupted \<open>json.dump\<close> leaves (an unclosed object), \<open>Binary\<close>
  is any other regular file (weights, an ONNX graph).
\<close>

datatype node = Directory | JsonText json | Partial | Binary

datatype event =
    Trying nat nat string
  | Succeeded nat
  | Failed nat exn
  | AllFailed

text \<open>
  \<open>files\<close> is the disk, \<open>temp_onnx_path\<close> the converter's mutable field of that name,
  \<open>events\<close> the lines the strategy loop prints (the other progress messages are not
  modelled).
\<close>

record state =
  files :: "path \<rightharpoonup> node"
  temp_onnx_path :: "path option"
  events :: "event list"

record converter =
  input_path :: path
  output_path :: path
  quantize :: bool

text \<open>
  A loaded checkpoint is a dictionary with string keys, as the strategies declare it
  (\<open>checkpoint: dict\<close>). A \<open>YOLO\<close> model is known by the weights file it was built
  from and by its \<open>names\<close> attribute, if it has one.
\<close>

type_synonym checkpoint = "string \<rightharpoonup> pyval"

record yolo_model =
  source :: path
  names :: "pyval option"

text \<open>
  The external collaborators are parameters. \<open>denied p\<close>: the operating system refuses
  to create, replace or remove \<open>p\<close> (permissions, a missing parent, a full disk).
  \<open>torch_load\<close> is the load with \<open>weights_only=False\<close>, \<open>torch_load_default\<close> the bare
  one of the alternative path; \<open>yolo\<close> is the \<open>YOLO(path)\<close> constructor, giving the
  model's \<open>names\<close> attribute if it has one; \<open>export_onnx\<close> says whether the export left an
  ONNX file beside the weights; \<open>tensorflowjs_converter\<close> gives the graph descriptor the
  command line tool wrote, if it wrote one; \<open>torch_save\<close> gives the error of
  pickling the object, if there is one. The tools run as the same user, so they write
  only where the process could; a \<open>YOLO\<close> constructor or an export that raises is
  taken to have left the disk as it was.
\<close>

record env =
  denied :: "path \<Rightarrow> bool"
  rglob :: "path \<Rightarrow> string \<Rightarrow> path list"
  torch_load :: "path \<Rightarrow> exn + checkpoint"
  torch_load_default :: "path \<Rightarrow> exn + checkpoint"
  torch_save :: "pyval \<Rightarrow> exn option"
  state_dict :: "pyval \<Rightarrow> exn + pyval"
  yolo :: "path \<Rightarrow> exn + pyval option"
  export_onnx :: "yolo_model \<Rightarrow> int \<Rightarrow> exn + bool"
  tensorflowjs_converter :: "path \<Rightarrow> bool \<Rightarrow> json option"

text \<open>A path at which the process can create, replace or remove a regular file.\<close>

definition writable :: "env \<Rightarrow> state \<Rightarrow> path \<Rightarrow> bool" where
  "writable env w p = (files w p \<noteq> Some Directory \<and> \<not> denied env p)"

definition exists :: "state \<Rightarrow> path \<Rightarrow> bool" where
  "exists w p = (files w p \<noteq> None)"

definition emit :: "event \<Rightarrow> state \<Rightarrow> state" where
  "emit e w = w\<lparr>events := events w @ [e]\<rparr>"

text \<open>
  \<open>Path.mkdir(parents=True, exist_ok=True)\<close>: the directories from the outermost
  missing ancestor down to the path itself are made one after the other; a regular file
  in the way or a refusal stops it, and what has been made by then stays.
\<close>

fun mkdir_each :: "env \<Rightarrow> path list \<Rightarrow> state \<Rightarrow> (exn + unit) \<times> state" where
  "mkdir_each env [] w = (Inr (), w)"
| "mkdir_each env (d # ds) w =
     (if files w d = Some Directory then mkdir_each env ds w
      else if files w d \<noteq> None \<or> denied env d then (Inl OSError, w)
      else mkdir_each env ds (w\<lparr>files := (files w)(d \<mapsto> Directory)\<rparr>))"

definition mkdir :: "env \<Rightarrow> path \<Rightarrow> state \<Rightarrow> (exn + unit) \<times> state" where
  "mkdir env p w =
     (if files w p = Some Directory then (Inr (), w)
      else mkdir_each env (tl (prefixes p)) w)"

definition unlink :: "env \<Rightarrow> path \<Rightarrow> state \<Rightarrow> (exn + unit) \<times> state" where
  "unlink env p w =
     (if files w p = None \<or> \<not> writable env w p then (Inl OSError, w)
      else (Inr (), w\<lparr>files := (files w)(p := None)\<rparr>))"

text \<open>
  \<open>Path.rename\<close>: renaming a path to itself does nothing; a directory cannot be moved
  below itself, and nothing can be moved onto a directory.
\<close>

definition rename :: "env \<Rightarrow> path \<Rightarrow> path \<Rightarrow> state \<Rightarrow> (exn + unit) \<times> state" where
  "rename env src dst w =
     (if files w src = None then (Inl OSError, w)
      else if src = dst then (Inr (), w)
      else if denied env src \<or> \<not> writable env w dst
              \<or> (files w src = Some Directory \<and> strict_prefix src dst)
      then (Inl OSError, w)
      else (Inr (), w\<lparr>files := (files w)(dst := files w src, src := None)\<rparr>))"

text \<open>
  \<open>with open(p, 'w') as f: json.dump(obj, f, indent=2)\<close>. Opening truncates the file;
  the encoder writes as it goes, so a value it cannot encode leaves the text unfinished.
\<close>

definition json_dump :: "env \<Rightarrow> path \<Rightarrow> pyval \<Rightarrow> state \<Rightarrow> (exn + unit) \<times> state" where
  "json_dump env p obj w =
     (if \<not> writable env w p then (Inl OSError, w)
      else case to_json obj of
             Some j \<Rightarrow> (Inr (), w\<lparr>files := (files w)(p \<mapsto> JsonText j)\<rparr>)
           | None \<Rightarrow> (Inl TypeError, w\<lparr>files := (files w)(p \<mapsto> Partial)\<rparr>))"

text \<open>\<open>with open(p, 'r') as f: json.load(f)\<close> on a path that exists.\<close>

definition json_load :: "node \<Rightarrow> exn + json" where
  "json_load n =
     (case n of
        JsonText j \<Rightarrow> Inr j
      | Directory \<Rightarrow> Inl OSError
      | _ \<Rightarrow> Inl JSONDecodeError)"

section \<open>Model information (convert\_model.py)\<close>

text \<open>
  The \<open>model_info\<close> dictionary always has the four keys \<open>_extract_yolov7_info\<close> gives
  it, so it is a record and the defaults of its \<open>.get\<close> calls are never used. The
  fallback strategy adds \<open>training_epoch\<close> and \<open>best_fitness\<close> to its copy.
\<close>

record model_info =
  classes :: pyval
  input_size :: "int list"
  model_type :: string
  variant :: string
  training_epoch :: "pyval option"
  best_fitness :: "pyval option"

definition default_info :: model_info where
  "default_info =
     \<lparr>classes = PList [PStr ''crop'', PStr ''weed''],
      input_size = [640, 640],
      model_type = ''yolov7'',
      variant = ''base'',
      training_epoch = None,
      best_fitness = None\<rparr>"

definition extract_yolov7_info :: "path \<Rightarrow> checkpoint \<Rightarrow> model_info" where
  "extract_yolov7_info input checkpoint =
     (let info = (case checkpoint ''names'' of
                    Some v \<Rightarrow> default_info\<lparr>classes := values_or_self v\<rparr>
                  | None \<Rightarrow> default_info);
          filename = lower (path_name input)
      in if substring_in ''tiny'' filename then
           info\<lparr>variant := ''tiny'', input_size := [640, 640]\<rparr>
         else if substring_in ''x'' filename then
           info\<lparr>variant := ''x'', input_size := [640, 640]\<rparr>
         else if substring_in ''e6'' filename then
           info\<lparr>variant := ''e6'',
                input_size := (if substring_in ''1280'' filename then [1280, 1280]
                               else [640, 640])\<rparr>
         else info)"

section \<open>The metadata synthesizer\<close>

definition performance :: "string \<Rightarrow> string" where
  "performance v =
     (if v = ''tiny'' then ''fast_inference''
      else if v = ''x'' then ''high_accuracy''
      else if v = ''e6'' then ''highest_accuracy''
      else ''balanced'')"

definition yolov7_config :: "model_info \<Rightarrow> pyval" where
  "yolov7_config info =
     PDict
       [(KStr ''classes'', classes info),
        (KStr ''modelType'', PStr (''yolov7-'' @ variant info)),
        (KStr ''inputSize'', PList (map PInt (input_size info))),
        (KStr ''threshold'', PFloat (35 / 100)),
        (KStr ''iouThreshold'', PFloat (65 / 100)),
        (KStr ''description'',
           PStr (''YOLOv7 '' @ variant info @ '' model for crop/weed detection'')),
        (KStr ''optimizedFor'', PStr ''agricultural_detection''),
        (KStr ''performance'', PStr (performance (variant info)))]"

text \<open>
  \<open>_generate_yolov7_classes_json\<close>: the whole body is inside \<open>try\<close>, and the handler
  only prints a warning, so the call returns normally whatever happened; the
  \<open>len(config['classes'])\<close> of the last message can raise too, after the file is written.
\<close>

definition generate_yolov7_classes_json :: "env \<Rightarrow> converter \<Rightarrow> model_info \<Rightarrow> state \<Rightarrow> state" where
  "generate_yolov7_classes_json env self info w =
     (case json_dump env (joinpath (output_path self) ''classes.json'') (yolov7_config info) w of
        (Inl e, w1) \<Rightarrow> w1
      | (Inr u, w1) \<Rightarrow> (case py_len (classes info) of Inl e \<Rightarrow> w1 | Inr n \<Rightarrow> w1))"

definition generic_config :: "pyval \<Rightarrow> pyval" where
  "generic_config class_names =
     PDict
       [(KStr ''classes'', values_or_self class_names),
        (KStr ''modelType'', PStr ''yolov5''),
        (KStr ''inputSize'', PList [PInt 640, PInt 640]),
        (KStr ''anchors'',
           PList [PList (map PInt [10, 13, 16, 30, 33, 23]),
                  PList (map PInt [30, 61, 62, 45, 59, 119]),
                  PList (map PInt [116, 90, 156, 198, 373, 326])]),
        (KStr ''strides'', PList (map PInt [8, 16, 32])),
        (KStr ''threshold'', PFloat (5 / 10)),
        (KStr ''iouThreshold'', PFloat (45 / 100))]"

definition minimal_config :: pyval where
  "minimal_config =
     PDict
       [(KStr ''classes'', PList [PStr ''weed'', PStr ''crop'']),
        (KStr ''modelType'', PStr ''yolo''),
        (KStr ''inputSize'', PList [PInt 640, PInt 640]),
        (KStr ''threshold'', PFloat (5 / 10)),
        (KStr ''iouThreshold'', PFloat (45 / 100))]"

text \<open>
  \<open>_generate_classes_json\<close>: here the handler writes the minimal configuration, and an
  error of that second write leaves the function.
\<close>

definition generate_classes_json :: "env \<Rightarrow> converter \<Rightarrow> yolo_model \<Rightarrow> state \<Rightarrow> (exn + unit) \<times> state" where
  "generate_classes_json env self model w =
     (let class_names = (case names model of Some v \<Rightarrow> v | None \<Rightarrow> PList []);
          classes_path = joinpath (output_path self) ''classes.json''
      in case (case json_dump env classes_path (generic_config class_names) w of
                 (Inl e, w1) \<Rightarrow> (Inl e, w1)
               | (Inr u, w1) \<Rightarrow>
                   (case py_len (values_or_self class_names) of
                      Inl e \<Rightarrow> (Inl e, w1)
                    | Inr n \<Rightarrow> (Inr (), w1))) of
           (Inr u, w1) \<Rightarrow> (Inr (), w1)
         | (Inl e, w1) \<Rightarrow> json_dump env classes_path minimal_config w1)"

section \<open>The graph exporter\<close>

text \<open>
  \<open>_convert_onnx\<close>: \<open>os.system\<close> runs the converter and does not raise; success is the
  existence of \<open>model.json\<close> afterwards, whoever wrote it.
\<close>

definition convert_onnx :: "env \<Rightarrow> converter \<Rightarrow> path \<Rightarrow> state \<Rightarrow> bool \<times> state" where
  "convert_onnx env self onnx_path w =
     (let model_json = joinpath (output_path self) ''model.json'';
          w1 = (case tensorflowjs_converter env onnx_path (quantize self) of
                  Some g \<Rightarrow>
                    if writable env w model_json
                    then w\<lparr>files := (files w)(model_json \<mapsto> JsonText g)\<rparr>
                    else w
                | None \<Rightarrow> w)
      in (exists w1 model_json, w1))"

definition export :: "env \<Rightarrow> yolo_model \<Rightarrow> int \<Rightarrow> state \<Rightarrow> (exn + unit) \<times> state" where
  "export env model imgsz w =
     (case export_onnx env model imgsz of
        Inl e \<Rightarrow> (Inl e, w)
      | Inr produced \<Rightarrow>
          (Inr (),
           if produced \<and> writable env w (with_suffix (source model) ''.onnx'')
           then w\<lparr>files := (files w)(with_suffix (source model) ''.onnx'' \<mapsto> Binary)\<rparr>
           else w))"

text \<open>
  \<open>torch.save(obj, p)\<close> opens \<open>p\<close> for writing and then pickles the object into it:
  when the pickling raises, the file it has begun is there.
\<close>

definition torch_save_to :: "env \<Rightarrow> pyval \<Rightarrow> path \<Rightarrow> state \<Rightarrow> (exn + unit) \<times> state" where
  "torch_save_to env obj p w =
     (if \<not> writable env w p then (Inl OSError, w)
      else case torch_save env obj of
             Some e \<Rightarrow> (Inl e, w\<lparr>files := (files w)(p \<mapsto> Binary)\<rparr>)
           | None \<Rightarrow> (Inr (), w\<lparr>files := (files w)(p \<mapsto> Binary)\<rparr>))"

section \<open>The four strategies\<close>

text \<open>The first key of the list that the checkpoint has, with its value.\<close>

fun first_present :: "checkpoint \<Rightarrow> string list \<Rightarrow> (pyval \<times> string) option" where
  "first_present checkpoint [] = None"
| "first_present checkpoint (k # ks) =
     (case checkpoint k of
        Some v \<Rightarrow> Some (v, k)
      | None \<Rightarrow> first_present checkpoint ks)"

definition model_checkpoint_of :: "env \<Rightarrow> checkpoint \<Rightarrow> model_info \<Rightarrow> pyval \<Rightarrow> string \<Rightarrow> exn + pyval" where
  "model_checkpoint_of env checkpoint info model_data used_key =
     (let epoch = (case checkpoint ''epoch'' of Some v \<Rightarrow> v | None \<Rightarrow> PInt 0);
          nms = (case checkpoint ''names'' of Some v \<Rightarrow> v | None \<Rightarrow> classes info);
          wrap = (\<lambda>m. PDict [(KStr ''model'', m), (KStr ''epoch'', epoch), (KStr ''names'', nms)])
      in if used_key = ''state_dict'' then Inr (wrap model_data)
         else if model_data = PObject True then
           (case state_dict env model_data of
              Inl e \<Rightarrow> Inl e
            | Inr sd \<Rightarrow> Inr (wrap sd))
         else Inr (wrap model_data))"

text \<open>The \<open>try\<close> block of the first strategy, entered once \<open>temp_model.pt\<close> is saved.\<close>

definition ultralytics_export_body :: "env \<Rightarrow> converter \<Rightarrow> model_info \<Rightarrow> path \<Rightarrow> state \<Rightarrow> (exn + bool) \<times> state" where
  "ultralytics_export_body env self info temp_pt_path w =
     (case yolo env temp_pt_path of
        Inl e \<Rightarrow> (Inl e, w)
      | Inr nm \<Rightarrow>
          let model = \<lparr>source = temp_pt_path, names = nm\<rparr>;
              temp_onnx = joinpath (output_path self) ''temp_model.onnx'';
              w1 = w\<lparr>temp_onnx_path := Some temp_onnx\<rparr>
          in case py_index0 (input_size info) of
               Inl e \<Rightarrow> (Inl e, w1)
             | Inr imgsz \<Rightarrow>
                 (case export env model imgsz w1 of
                    (Inl e, w2) \<Rightarrow> (Inl e, w2)
                  | (Inr u, w2) \<Rightarrow>
                      let exported_onnx = with_suffix temp_pt_path ''.onnx'' in
                      if exists w2 exported_onnx then
                        (case rename env exported_onnx temp_onnx w2 of
                           (Inl e, w3) \<Rightarrow> (Inl e, w3)
                         | (Inr u, w3) \<Rightarrow>
                             (case convert_onnx env self temp_onnx w3 of
                                (success, w4) \<Rightarrow>
                                  if success
                                  then (Inr True, generate_yolov7_classes_json env self info w4)
                                  else (Inr False, w4)))
                      else (Inr False, w2)))"

text \<open>
  Strategy 1. The key loop stops at the first key present, also when its value is
  \<open>None\<close>. \<open>torch.save\<close> comes before the \<open>try\<close>; the \<open>finally\<close> removes
  \<open>temp_model.pt\<close> if it exists, and an error of the removal replaces the result.
\<close>

definition strategy_ultralytics_export :: "env \<Rightarrow> converter \<Rightarrow> checkpoint \<Rightarrow> model_info \<Rightarrow> state \<Rightarrow> (exn + bool) \<times> state" where
  "strategy_ultralytics_export env self checkpoint info w =
     (let temp_pt_path = joinpath (output_path self) ''temp_model.pt'' in
      case first_present checkpoint [''model'', ''ema'', ''state_dict''] of
        None \<Rightarrow> (Inl ValueError, w)
      | Some (model_data, used_key) \<Rightarrow>
          if model_data = PNone then (Inl ValueError, w)
          else
            (case model_checkpoint_of env checkpoint info model_data used_key of
               Inl e \<Rightarrow> (Inl e, w)
             | Inr model_checkpoint \<Rightarrow>
                 (case torch_save_to env model_checkpoint temp_pt_path w of
                    (Inl e, w1) \<Rightarrow> (Inl e, w1)
                  | (Inr u, w1) \<Rightarrow>
                      (case ultralytics_export_body env self info temp_pt_path w1 of
                         (r, w2) \<Rightarrow>
                           if exists w2 temp_pt_path then
                             (case unlink env temp_pt_path w2 of
                                (Inl e, w3) \<Rightarrow> (Inl e, w3)
                              | (Inr u, w3) \<Rightarrow> (r, w3))
                           else (r, w2)))))"

definition strategy_direct_onnx_export :: "env \<Rightarrow> converter \<Rightarrow> checkpoint \<Rightarrow> model_info \<Rightarrow> state \<Rightarrow> (exn + bool) \<times> state" where
  "strategy_direct_onnx_export env self checkpoint info w = (Inl NotImplementedError, w)"

definition strategy_manual_reconstruction :: "env \<Rightarrow> converter \<Rightarrow> checkpoint \<Rightarrow> model_info \<Rightarrow> state \<Rightarrow> (exn + bool) \<times> state" where
  "strategy_manual_reconstruction env self checkpoint info w = (Inl NotImplementedError, w)"

definition placeholder_model :: pyval where
  "placeholder_model =
     PDict
       [(KStr ''format'', PStr ''graph-model''),
        (KStr ''generatedBy'', PStr ''LaserWeed Converter (Fallback)''),
        (KStr ''convertedBy'', PStr ''Manual Configuration''),
        (KStr ''modelTopology'',
           PDict [(KStr ''note'', PStr ''Model conversion failed - using simple detection'')]),
        (KStr ''weightsManifest'', PList [])]"

definition enhanced_model_info :: "checkpoint \<Rightarrow> model_info \<Rightarrow> model_info" where
  "enhanced_model_info checkpoint info =
     (let e1 = (case checkpoint ''epoch'' of
                  Some v \<Rightarrow> info\<lparr>training_epoch := Some v\<rparr>
                | None \<Rightarrow> info);
          e2 = (case checkpoint ''best_fitness'' of
                  Some v \<Rightarrow> e1\<lparr>best_fitness := Some v\<rparr>
                | None \<Rightarrow> e1)
      in case first_present checkpoint [''names'', ''class_names'', ''classes''] of
           Some (v, k) \<Rightarrow> e2\<lparr>classes := v\<rparr>
         | None \<Rightarrow> e2)"

definition strategy_fallback_conversion :: "env \<Rightarrow> converter \<Rightarrow> checkpoint \<Rightarrow> model_info \<Rightarrow> state \<Rightarrow> (exn + bool) \<times> state" where
  "strategy_fallback_conversion env self checkpoint info w =
     (let w1 = generate_yolov7_classes_json env self (enhanced_model_info checkpoint info) w in
      case json_dump env (joinpath (output_path self) ''model.json'') placeholder_model w1 of
        (Inl e, w2) \<Rightarrow> (Inl e, w2)
      | (Inr u, w2) \<Rightarrow> (Inr True, w2))"

section \<open>The strategy chain\<close>

type_synonym strategy = "checkpoint \<Rightarrow> model_info \<Rightarrow> state \<Rightarrow> (exn + bool) \<times> state"

text \<open>
  The loop \<open>for i, strategy in enumerate(conversion_strategies, 1)\<close>: \<open>i\<close> is the number
  of the next strategy, \<open>n\<close> the length of the whole list. The result is whether a
  strategy returned true.
\<close>

fun run_strategies :: "nat \<Rightarrow> nat \<Rightarrow> (string \<times> strategy) list \<Rightarrow> checkpoint \<Rightarrow> model_info \<Rightarrow> state \<Rightarrow> bool \<times> state" where
  "run_strategies i n [] checkpoint info w = (False, w)"
| "run_strategies i n ((nm, strat) # rest) checkpoint info w =
     (case strat checkpoint info (emit (Trying i n nm) w) of
        (Inr success, w1) \<Rightarrow>
          if success then (True, emit (Succeeded i) w1)
          else run_strategies (Suc i) n rest checkpoint info w1
      | (Inl e, w1) \<Rightarrow>
          run_strategies (Suc i) n rest checkpoint info (emit (Failed i e) w1))"

definition conversion_strategies :: "env \<Rightarrow> converter \<Rightarrow> (string \<times> strategy) list" where
  "conversion_strategies env self =
     [(''_strategy_ultralytics_export'', strategy_ultralytics_export env self),
      (''_strategy_direct_onnx_export'', strategy_direct_onnx_export env self),
      (''_strategy_manual_reconstruction'', strategy_manual_reconstruction env self),
      (''_strategy_fallback_conversion'', strategy_fallback_conversion env self)]"

text \<open>
  \<open>_convert_yolov7_alternative\<close>: reached when the first load raised; it loads again,
  writes the default metadata and reports failure.
\<close>

definition convert_yolov7_alternative :: "env \<Rightarrow> converter \<Rightarrow> state \<Rightarrow> (exn + bool) \<times> state" where
  "convert_yolov7_alternative env self w =
     (case torch_load_default env (input_path self) of
        Inl e \<Rightarrow> (Inr False, w)
      | Inr checkpoint \<Rightarrow> (Inr False, generate_yolov7_classes_json env self default_info w))"

definition convert_yolov7_checkpoint :: "env \<Rightarrow> converter \<Rightarrow> state \<Rightarrow> (exn + bool) \<times> state" where
  "convert_yolov7_checkpoint env self w =
     (case torch_load env (input_path self) of
        Inl e \<Rightarrow> convert_yolov7_alternative env self w
      | Inr checkpoint \<Rightarrow>
          let info = extract_yolov7_info (input_path self) checkpoint in
          (case run_strategies 1 4 (conversion_strategies env self) checkpoint info w of
             (success, w1) \<Rightarrow>
               if success then (Inr True, w1)
               else (Inr False, generate_yolov7_classes_json env self info (emit AllFailed w1))))"

section \<open>The other input formats and the entry point\<close>

definition convert_pytorch :: "env \<Rightarrow> converter \<Rightarrow> state \<Rightarrow> (exn + bool) \<times> state" where
  "convert_pytorch env self w =
     (case yolo env (input_path self) of
        Inl e \<Rightarrow> (Inl e, w)
      | Inr nm \<Rightarrow>
          let model = \<lparr>source = input_path self, names = nm\<rparr>;
              temp_onnx = joinpath (output_path self) ''temp_model.onnx'';
              w1 = w\<lparr>temp_onnx_path := Some temp_onnx\<rparr>
          in case export env model 640 w1 of
               (Inl e, w2) \<Rightarrow> (Inl e, w2)
             | (Inr u, w2) \<Rightarrow>
                 let exported_onnx = with_suffix (input_path self) ''.onnx'' in
                 (case (if exists w2 exported_onnx then rename env exported_onnx temp_onnx w2
                        else (Inr (), w2)) of
                    (Inl e, w3) \<Rightarrow> (Inl e, w3)
                  | (Inr u, w3) \<Rightarrow>
                      (case convert_onnx env self temp_onnx w3 of
                         (success, w4) \<Rightarrow>
                           if success then
                             (case generate_classes_json env self model w4 of
                                (Inl e, w5) \<Rightarrow> (Inl e, w5)
                              | (Inr u, w5) \<Rightarrow> (Inr True, w5))
                           else (Inr False, w4))))"

text \<open>The \<open>try\<close> block of \<open>convert\<close>.\<close>

definition convert_dispatch :: "env \<Rightarrow> converter \<Rightarrow> state \<Rightarrow> (exn + bool) \<times> state" where
  "convert_dispatch env self w =
     (case mkdir env (output_path self) w of
        (Inl e, w1) \<Rightarrow> (Inl e, w1)
      | (Inr u, w1) \<Rightarrow>
          if path_suffix (input_path self) = ''.pt'' then convert_pytorch env self w1
          else if path_suffix (input_path self) = ''.ckpt'' then convert_yolov7_checkpoint env self w1
          else if path_suffix (input_path self) = ''.onnx'' then
            (case convert_onnx env self (input_path self) w1 of (b, w2) \<Rightarrow> (Inr b, w2))
          else (Inr False, w1))"

text \<open>
  \<open>convert\<close>: \<open>except Exception\<close> turns every error of the body into \<open>False\<close>; the
  \<open>finally\<close> then removes the tracked ONNX file if it exists, and an error of that
  removal is the one thing that leaves \<open>convert\<close> as an exception.
\<close>

definition convert :: "env \<Rightarrow> converter \<Rightarrow> state \<Rightarrow> (exn + bool) \<times> state" where
  "convert env self w =
     (case convert_dispatch env self w of
        (r, w1) \<Rightarrow>
          let result = (case r of Inl e \<Rightarrow> False | Inr b \<Rightarrow> b) in
          (case temp_onnx_path w1 of
             Some p \<Rightarrow>
               if exists w1 p then
                 (case unlink env p w1 of
                    (Inl e, w2) \<Rightarrow> (Inl e, w2)
                  | (Inr u, w2) \<Rightarrow> (Inr result, w2))
               else (Inr result, w1)
           | None \<Rightarrow> (Inr result, w1)))"

text \<open>\<open>ModelConverter.__init__\<close> on a given disk: no ONNX file is tracked yet.\<close>

definition init_state :: "(path \<rightharpoonup> node) \<Rightarrow> state" where
  "init_state fs = \<lparr>files = fs, temp_onnx_path = None, events = []\<rparr>"

section \<open>The output validator\<close>

definition validate_model :: "(path \<rightharpoonup> node) \<Rightarrow> path \<Rightarrow> bool" where
  "validate_model fs model_path =
     (case fs (joinpath model_path ''model.json'') of
        None \<Rightarrow> False
      | Some m \<Rightarrow>
          (case fs (joinpath model_path ''classes.json'') of
             None \<Rightarrow> False
           | Some c \<Rightarrow>
               (case json_load m of
                  Inl e \<Rightarrow> False
                | Inr g \<Rightarrow>
                    (case json_load c of
                       Inl e \<Rightarrow> False
                     | Inr config \<Rightarrow>
                         (case json_contains ''classes'' config of
                            Inl e \<Rightarrow> False
                          | Inr found \<Rightarrow> found)))))"

section \<open>The batch scan (batch\_convert.py)\<close>

definition scan_for_models :: "env \<Rightarrow> (path \<rightharpoonup> node) \<Rightarrow> path \<Rightarrow> (path \<times> string) list" where
  "scan_for_models env fs models_dir =
     (if fs models_dir = None then []
      else concat
             (map (\<lambda>extension.
                     map (\<lambda>model_file. (model_file, determine_model_type model_file))
                       (filter (\<lambda>model_file.
                                  fs (joinpath (joinpath (path_parent model_file) (path_stem model_file))
                                        ''model.json'') = None)
                          (rglob env models_dir (''*'' @ extension))))
                [''.ckpt'', ''.pt'', ''.onnx'']))"

section \<open>Example inputs\<close>

text \<open>
  An environment in which nothing is refused and no external tool works: loading gives an
  empty mapping, \<open>YOLO(...)\<close> raises, the converter writes nothing. The models
  directory lists two checkpoints.
\<close>

definition quiet_env :: env where
  "quiet_env =
     \<lparr>denied = (\<lambda>p. False),
      rglob = (\<lambda>d pat. if pat = ''*.ckpt''
                         then [d @ [''yolov7-tiny.ckpt''], d @ [''weeds.ckpt'']] else []),
      torch_load = (\<lambda>p. Inr Map.empty),
      torch_load_default = (\<lambda>p. Inr Map.empty),
      torch_save = (\<lambda>obj. None),
      state_dict = (\<lambda>obj. Inr (PDict [])),
      yolo = (\<lambda>p. Inl (ExternalError ''not a model'')),
      export_onnx = (\<lambda>m imgsz. Inr False),
      tensorflowjs_converter = (\<lambda>p q. None)\<rparr>"

definition example_converter :: converter where
  "example_converter =
     \<lparr>input_path = [''models'', ''weeds.ckpt''], output_path = [''models'', ''weeds''],
      quantize = False\<rparr>"

text \<open>A models directory in which \<open>weeds.ckpt\<close> has been converted already.\<close>

definition converted_disk :: "path \<rightharpoonup> node" where
  "converted_disk =
     [[''models''] \<mapsto> Directory,
      [''models'', ''weeds''] \<mapsto> Directory,
      [''models'', ''weeds'', ''model.json''] \<mapsto> JsonText (JObj []),
      [''models'', ''weeds'', ''classes.json''] \<mapsto> JsonText (JArr [JStr ''classes''])]"

text \<open>
  A \<open>ModelInfo\<close> whose class names are an object \<open>json\<close> cannot encode (the
  checkpoint's \<open>names\<close> field was a tensor or a set), a loaded model with such names,
  and a loaded model without a \<open>names\<close> attribute.
\<close>

definition unencodable_info :: model_info where
  "unencodable_info = default_info\<lparr>classes := PObject False\<rparr>"

definition tensor_names_model :: yolo_model where
  "tensor_names_model = \<lparr>source = [''models'', ''weeds.pt''], names = Some (PObject False)\<rparr>"

definition nameless_model :: yolo_model where
  "nameless_model = \<lparr>source = [''models'', ''weeds.pt''], names = None\<rparr>"

text \<open>
  The lines the loop prints for strategy number \<open>i\<close> of \<open>n\<close>, given how the strategy
  ended, and for the strategies tried one after the other.
\<close>

fun attempt_events :: "nat \<Rightarrow> nat \<Rightarrow> string \<Rightarrow> exn + bool \<Rightarrow> event list" where
  "attempt_events i n nm (Inr success) =
     (if success then [Trying i n nm, Succeeded i] else [Trying i n nm])"
| "attempt_events i n nm (Inl e) = [Trying i n nm, Failed i e]"

fun chain_trace :: "nat \<Rightarrow> nat \<Rightarrow> string list \<Rightarrow> (exn + bool) list \<Rightarrow> event list" where
  "chain_trace i n (nm # nms) (r # rs) = attempt_events i n nm r @ chain_trace (Suc i) n nms rs"
| "chain_trace i n nms rs = []"

text \<open>
  The state of the interim ONNX file: absent when the converter tracks no path, and
  otherwise tracked under its own name and, if it exists, removable.
\<close>

definition onnx_tracked :: "env \<Rightarrow> converter \<Rightarrow> state \<Rightarrow> bool" where
  "onnx_tracked env self w =
     (case temp_onnx_path w of
        None \<Rightarrow> files w (joinpath (output_path self) ''temp_model.onnx'') = None
      | Some p \<Rightarrow> p = joinpath (output_path self) ''temp_model.onnx''
                 \<and> (files w p = None \<or> writable env w p))"

text \<open>
  A frame condition: between the two states only the files at the paths in \<open>S\<close> differ,
  no path has become a directory, and the loop has printed nothing.
\<close>

definition touches :: "path set \<Rightarrow> state \<Rightarrow> state \<Rightarrow> bool" where
  "touches S w w' =
     (events w' = events w
      \<and> (\<forall>q. q \<notin> S \<longrightarrow> files w' q = files w q)
      \<and> (\<forall>q. files w q \<noteq> Some Directory \<longrightarrow> files w' q \<noteq> Some Directory))"

text \<open>
  A disk that has the example's output directory with a directory named
  \<open>model.json\<close> in it, so that no file can be written under that name.
\<close>

definition blocked_model_json_disk :: "path \<rightharpoonup> node" where
  "blocked_model_json_disk =
     [[''models''] \<mapsto> Directory,
      [''models'', ''weeds''] \<mapsto> Directory,
      [''models'', ''weeds'', ''model.json''] \<mapsto> Directory]"

text \<open>
  No interim artifact is on the disk: \<open>temp_model.pt\<close> is absent, and the ONNX file
  is absent or tracked.
\<close>

definition temps_clean :: "env \<Rightarrow> converter \<Rightarrow> state \<Rightarrow> bool" where
  "temps_clean env self w =
     (files w (joinpath (output_path self) ''temp_model.pt'') = None \<and> onnx_tracked env self w)"

text \<open>
  An environment in which every external tool works: the checkpoint holds a model
  object and class names, the export leaves an ONNX file and the converter writes a
  graph.
\<close>

definition working_env :: env where
  "working_env =
     quiet_env
       \<lparr>torch_load := (\<lambda>p. Inr [''model'' \<mapsto> PObject True,
                                 ''names'' \<mapsto> PDict [(KInt 0, PStr ''crop''), (KInt 1, PStr ''weed'')]]),
        yolo := (\<lambda>p. Inr (Some (PDict [(KInt 0, PStr ''crop''), (KInt 1, PStr ''weed'')]))),
        export_onnx := (\<lambda>m imgsz. Inr True),
        tensorflowjs_converter := (\<lambda>p q. Some (JObj [(''format'', JStr ''graph-model'')]))\<rparr>"

text \<open>
  The quiet environment on a disk where nothing may be written, and a disk that has the
  example's output directory and nothing in it.
\<close>

definition read_only_env :: env where
  "read_only_env = quiet_env\<lparr>denied := (\<lambda>p. True)\<rparr>"

definition empty_output_disk :: "path \<rightharpoonup> node" where
  "empty_output_disk = [[''models''] \<mapsto> Directory, [''models'', ''weeds''] \<mapsto> Directory]"

text \<open>
  The state in which the loop goes on when strategy number \<open>i\<close> has not returned true:
  an exception has been printed as the failure of that strategy.
\<close>

definition after_failure :: "nat \<Rightarrow> exn + bool \<Rightarrow> state \<Rightarrow> state" where
  "after_failure i r w = (case r of Inl e \<Rightarrow> emit (Failed i e) w | Inr success \<Rightarrow> w)"

text \<open>
  The quiet environment with a checkpoint that has no model data and whose \<open>names\<close>
  field is a tensor.
\<close>

definition tensor_names_env :: env where
  "tensor_names_env = quiet_env\<lparr>torch_load := (\<lambda>p. Inr [''names'' \<mapsto> PObject False])\<rparr>"

text \<open>
  The quiet environment with a checkpoint whose model object cannot be pickled again.
\<close>

definition unpicklable_env :: env where
  "unpicklable_env =
     quiet_env
       \<lparr>torch_load := (\<lambda>p. Inr [''model'' \<mapsto> PObject False]),
        torch_save := (\<lambda>obj. Some (ExternalError ''PicklingError''))\<rparr>"

section \<open>The batch scan skips converted models\<close>

lemma scan_for_models_set:
  "fs models_dir \<noteq> None \<Longrightarrow>
   fst ` set (scan_for_models env fs models_dir) =
     {f \<in> set (rglob env models_dir ''*.ckpt'') \<union> set (rglob env models_dir ''*.pt'')
            \<union> set (rglob env models_dir ''*.onnx'').
        fs (joinpath (joinpath (path_parent f) (path_stem f)) ''model.json'') = None}"
  by (auto simp: scan_for_models_def image_Un image_image)

text \<open>
  C8. A model file whose output directory (the sibling directory named after the file's
  stem) holds a \<open>model.json\<close> is not in the list \<open>scan_for_models\<close> returns, whichever
  pattern enumerated it.
\<close>

theorem scan_for_models_skips_converted:
  assumes "fs (joinpath (joinpath (path_parent model_file) (path_stem model_file)) ''model.json'') \<noteq> None"
  shows "model_file \<notin> fst ` set (scan_for_models env fs models_dir)"
proof (cases "fs models_dir = None")
  case True
  then show ?thesis by (simp add: scan_for_models_def)
next
  case False
  with assms show ?thesis by (simp add: scan_for_models_set)
qed

theorem scan_for_models_skips_converted_witness:
  "[''models'', ''weeds.ckpt''] \<in> set (rglob quiet_env [''models''] ''*.ckpt'')
   \<and> converted_disk [''models'', ''weeds'', ''model.json''] \<noteq> None
   \<and> [''models'', ''weeds.ckpt''] \<notin> fst ` set (scan_for_models quiet_env converted_disk [''models''])
   \<and> scan_for_models quiet_env converted_disk [''models'']
       = [([''models'', ''yolov7-tiny.ckpt''], ''yolov7-tiny'')]"
proof -
  have pre: "converted_disk (joinpath (joinpath (path_parent [''models'', ''weeds.ckpt''])
               (path_stem [''models'', ''weeds.ckpt''])) ''model.json'') \<noteq> None"
    by (simp add: converted_disk_def joinpath_def path_parent_def path_stem_def path_name_def)
  have "[''models'', ''weeds.ckpt''] \<notin> fst ` set (scan_for_models quiet_env converted_disk [''models''])"
    using pre
      scan_for_models_skips_converted
        [where fs = converted_disk and model_file = "[''models'', ''weeds.ckpt'']"
           and env = quiet_env and models_dir = "[''models'']"]
    by blast
  moreover have "scan_for_models quiet_env converted_disk [''models'']
       = [([''models'', ''yolov7-tiny.ckpt''], ''yolov7-tiny'')]"
    by (simp add: scan_for_models_def converted_disk_def quiet_env_def joinpath_def
        path_parent_def path_stem_def path_name_def path_suffix_def determine_model_type_def
        lower_def lower_char_def)
  ultimately show ?thesis
    by (simp add: quiet_env_def converted_disk_def)
qed

section \<open>Classification from the file name\<close>

lemma path_suffix_name: "path_name p1 = path_name p2 \<Longrightarrow> path_suffix p1 = path_suffix p2"
  by (simp add: path_suffix_def)

text \<open>
  C9, as amended. Two inputs with the same file name get the same model type from
  \<open>determine_model_type\<close> and the same variant, input size and model type in their
  \<open>ModelInfo\<close>, whatever the two checkpoints hold; the class names are read from the
  checkpoint, so the whole \<open>ModelInfo\<close> is the same once the \<open>names\<close> fields agree.
\<close>

theorem classification_by_filename:
  assumes "path_name p1 = path_name p2"
  shows "determine_model_type p1 = determine_model_type p2
       \<and> variant (extract_yolov7_info p1 c1) = variant (extract_yolov7_info p2 c2)
       \<and> input_size (extract_yolov7_info p1 c1) = input_size (extract_yolov7_info p2 c2)
       \<and> model_type (extract_yolov7_info p1 c1) = model_type (extract_yolov7_info p2 c2)
       \<and> (c1 ''names'' = c2 ''names'' \<longrightarrow> extract_yolov7_info p1 c1 = extract_yolov7_info p2 c2)"
proof -
  have "determine_model_type p1 = determine_model_type p2"
    using assms path_suffix_name [OF assms] by (simp add: determine_model_type_def)
  moreover have "variant (extract_yolov7_info p1 c1) = variant (extract_yolov7_info p2 c2)"
    using assms by (simp add: extract_yolov7_info_def Let_def default_info_def split: option.splits)
  moreover have "input_size (extract_yolov7_info p1 c1) = input_size (extract_yolov7_info p2 c2)"
    using assms by (simp add: extract_yolov7_info_def Let_def default_info_def split: option.splits)
  moreover have "model_type (extract_yolov7_info p1 c1) = model_type (extract_yolov7_info p2 c2)"
    using assms by (simp add: extract_yolov7_info_def Let_def default_info_def split: option.splits)
  moreover have "c1 ''names'' = c2 ''names'' \<longrightarrow> extract_yolov7_info p1 c1 = extract_yolov7_info p2 c2"
    using assms by (simp add: extract_yolov7_info_def)
  ultimately show ?thesis by blast
qed

theorem classification_by_filename_witness:
  "path_name [''a'', ''yolov7-e6-1280.ckpt''] = path_name [''b'', ''yolov7-e6-1280.ckpt'']
   \<and> determine_model_type [''a'', ''yolov7-e6-1280.ckpt''] = ''yolov7-e6''
   \<and> determine_model_type [''b'', ''yolov7-e6-1280.ckpt''] = ''yolov7-e6''
   \<and> variant (extract_yolov7_info [''a'', ''yolov7-e6-1280.ckpt''] Map.empty) = ''e6''
   \<and> variant (extract_yolov7_info [''b'', ''yolov7-e6-1280.ckpt''] [''names'' \<mapsto> PList [PStr ''rose'']]) = ''e6''
   \<and> input_size (extract_yolov7_info [''b'', ''yolov7-e6-1280.ckpt''] [''names'' \<mapsto> PList [PStr ''rose'']]) = [1280, 1280]"
proof -
  have n: "path_name [''a'', ''yolov7-e6-1280.ckpt''] = path_name [''b'', ''yolov7-e6-1280.ckpt'']"
    by (simp add: path_name_def)
  have a: "determine_model_type [''a'', ''yolov7-e6-1280.ckpt''] = ''yolov7-e6''"
    by (simp add: determine_model_type_def lower_def lower_char_def path_name_def path_suffix_def)
  have b: "extract_yolov7_info [''a'', ''yolov7-e6-1280.ckpt''] Map.empty
            = default_info\<lparr>variant := ''e6'', input_size := [1280, 1280]\<rparr>"
    by (simp add: extract_yolov7_info_def lower_def lower_char_def path_name_def)
  note t = classification_by_filename [OF n, of Map.empty "[''names'' \<mapsto> PList [PStr ''rose'']]"]
  from t a have 1: "determine_model_type [''b'', ''yolov7-e6-1280.ckpt''] = ''yolov7-e6''"
    by (elim conjE) (erule subst, assumption)
  from t b have 2: "variant (extract_yolov7_info [''b'', ''yolov7-e6-1280.ckpt'']
                      [''names'' \<mapsto> PList [PStr ''rose'']]) = ''e6''"
    by (elim conjE) (erule_tac s = "variant _" in subst, simp)
  from t b have 3: "input_size (extract_yolov7_info [''b'', ''yolov7-e6-1280.ckpt'']
                      [''names'' \<mapsto> PList [PStr ''rose'']]) = [1280, 1280]"
    by (elim conjE) (erule_tac s = "input_size _" in subst, simp)
  from n a b 1 2 3 show ?thesis by simp
qed

text \<open>
  C9 as stated fails: the same file name with two checkpoints, one without and one with
  a \<open>names\<close> field, gives two different class lists.
\<close>

theorem classification_counterexample:
  "path_name [''a'', ''weeds.ckpt''] = path_name [''b'', ''weeds.ckpt'']
   \<and> classes (extract_yolov7_info [''a'', ''weeds.ckpt''] Map.empty) = PList [PStr ''crop'', PStr ''weed'']
   \<and> classes (extract_yolov7_info [''b'', ''weeds.ckpt''] [''names'' \<mapsto> PList [PStr ''rose'']]) = PList [PStr ''rose'']
   \<and> extract_yolov7_info [''a'', ''weeds.ckpt''] Map.empty
       \<noteq> extract_yolov7_info [''b'', ''weeds.ckpt''] [''names'' \<mapsto> PList [PStr ''rose'']]"
proof -
  have 1: "classes (extract_yolov7_info [''a'', ''weeds.ckpt''] Map.empty) = PList [PStr ''crop'', PStr ''weed'']"
    by (simp add: extract_yolov7_info_def lower_def lower_char_def path_name_def default_info_def)
  have 2: "classes (extract_yolov7_info [''b'', ''weeds.ckpt''] [''names'' \<mapsto> PList [PStr ''rose'']]) = PList [PStr ''rose'']"
    by (simp add: extract_yolov7_info_def lower_def lower_char_def path_name_def default_info_def values_or_self_def)
  from 1 2 have "extract_yolov7_info [''a'', ''weeds.ckpt''] Map.empty
       \<noteq> extract_yolov7_info [''b'', ''weeds.ckpt''] [''names'' \<mapsto> PList [PStr ''rose'']]"
    by (metis list.inject list.distinct(1) pyval.inject(5))
  with 1 2 show ?thesis by (simp add: path_name_def)
qed

section \<open>Class names of the model information\<close>

text \<open>
  C4, as amended. Without a \<open>names\<close> field the classes are the two-element default
  \<open>['crop', 'weed']\<close>; with one, they are that field's values if it is a mapping and
  the field itself otherwise, whatever it holds.
\<close>

theorem extract_classes:
  "(checkpoint ''names'' = None \<longrightarrow>
      classes (extract_yolov7_info input checkpoint) = PList [PStr ''crop'', PStr ''weed''])
   \<and> (\<forall>v. checkpoint ''names'' = Some v \<longrightarrow>
      classes (extract_yolov7_info input checkpoint) = values_or_self v)"
  by (simp add: extract_yolov7_info_def Let_def default_info_def)

theorem extract_classes_witness:
  "(Map.empty :: checkpoint) ''names'' = None
   \<and> classes (extract_yolov7_info [''weeds.ckpt''] Map.empty) = PList [PStr ''crop'', PStr ''weed'']
   \<and> classes (extract_yolov7_info [''weeds.ckpt''] [''names'' \<mapsto> PDict [(KInt 0, PStr ''crop''), (KInt 1, PStr ''weed'')]])
       = PList [PStr ''crop'', PStr ''weed'']"
  using extract_classes [of Map.empty "[''weeds.ckpt'']"]
    extract_classes [of "[''names'' \<mapsto> PDict [(KInt 0, PStr ''crop''), (KInt 1, PStr ''weed'')]]" "[''weeds.ckpt'']"]
  by (simp add: values_or_self_def)

text \<open>
  C4 as stated fails: a checkpoint whose \<open>names\<close> field is an empty mapping gives an
  empty class list.
\<close>

theorem extract_classes_empty_counterexample:
  "classes (extract_yolov7_info [''weeds.ckpt''] [''names'' \<mapsto> PDict []]) = PList []"
  by (simp add: extract_yolov7_info_def lower_def lower_char_def path_name_def default_info_def values_or_self_def)

section \<open>What the metadata synthesizer writes\<close>

lemma those_map_PInt:
  "those (map (to_json \<circ> PInt) xs) = Some (map (\<lambda>i. JNum (of_int i)) xs)"
  by (induction xs) simp_all

lemma to_json_yolov7_config:
  "to_json (yolov7_config info) =
     map_option
       (\<lambda>c. JObj [(''classes'', c),
                  (''modelType'', JStr (''yolov7-'' @ variant info)),
                  (''inputSize'', JArr (map (\<lambda>i. JNum (of_int i)) (input_size info))),
                  (''threshold'', JNum (35 / 100)),
                  (''iouThreshold'', JNum (65 / 100)),
                  (''description'',
                     JStr (''YOLOv7 '' @ variant info @ '' model for crop/weed detection'')),
                  (''optimizedFor'', JStr ''agricultural_detection''),
                  (''performance'', JStr (performance (variant info)))])
       (to_json (classes info))"
  by (cases "to_json (classes info)")
     (simp_all add: yolov7_config_def key_to_json_def those_map_PInt)

lemma to_json_generic_config:
  "to_json (generic_config v) =
     map_option
       (\<lambda>c. JObj [(''classes'', c),
                  (''modelType'', JStr ''yolov5''),
                  (''inputSize'', JArr [JNum 640, JNum 640]),
                  (''anchors'',
                     JArr [JArr (map JNum [10, 13, 16, 30, 33, 23]),
                           JArr (map JNum [30, 61, 62, 45, 59, 119]),
                           JArr (map JNum [116, 90, 156, 198, 373, 326])]),
                  (''strides'', JArr (map JNum [8, 16, 32])),
                  (''threshold'', JNum (5 / 10)),
                  (''iouThreshold'', JNum (45 / 100))])
       (to_json (values_or_self v))"
  by (cases "to_json (values_or_self v)")
     (simp_all add: generic_config_def key_to_json_def)

lemma to_json_minimal_config:
  "to_json minimal_config =
     Some (JObj [(''classes'', JArr [JStr ''weed'', JStr ''crop'']),
                 (''modelType'', JStr ''yolo''),
                 (''inputSize'', JArr [JNum 640, JNum 640]),
                 (''threshold'', JNum (5 / 10)),
                 (''iouThreshold'', JNum (45 / 100))])"
  by (simp add: minimal_config_def key_to_json_def)

lemma to_json_placeholder_model:
  "to_json placeholder_model =
     Some (JObj [(''format'', JStr ''graph-model''),
                 (''generatedBy'', JStr ''LaserWeed Converter (Fallback)''),
                 (''convertedBy'', JStr ''Manual Configuration''),
                 (''modelTopology'',
                    JObj [(''note'', JStr ''Model conversion failed - using simple detection'')]),
                 (''weightsManifest'', JArr [])])"
  by (simp add: placeholder_model_def key_to_json_def)

text \<open>What the two synthesizers leave at \<open>classes.json\<close>.\<close>

lemma generate_yolov7_classes_json_files:
  "files (generate_yolov7_classes_json env self info w) =
     (if \<not> writable env w (joinpath (output_path self) ''classes.json'')
      then files w
      else (files w)(joinpath (output_path self) ''classes.json'' \<mapsto>
             (case to_json (yolov7_config info) of Some j \<Rightarrow> JsonText j | None \<Rightarrow> Partial)))"
  by (simp add: generate_yolov7_classes_json_def json_dump_def split: option.splits sum.splits)

lemma generate_yolov7_classes_json_other:
  "temp_onnx_path (generate_yolov7_classes_json env self info w) = temp_onnx_path w"
  "events (generate_yolov7_classes_json env self info w) = events w"
  by (simp_all add: generate_yolov7_classes_json_def json_dump_def split: option.splits sum.splits)

lemma generate_classes_json_files:
  assumes "writable env w (joinpath (output_path self) ''classes.json'')"
  shows "generate_classes_json env self model w =
     (Inr (),
      w\<lparr>files := (files w)(joinpath (output_path self) ''classes.json'' \<mapsto>
          (let class_names = (case names model of Some v \<Rightarrow> v | None \<Rightarrow> PList []) in
           case to_json (generic_config class_names) of
             Some j \<Rightarrow> (case py_len (values_or_self class_names) of
                          Inr n \<Rightarrow> JsonText j
                        | Inl e \<Rightarrow> JsonText (the (to_json minimal_config)))
           | None \<Rightarrow> JsonText (the (to_json minimal_config))))\<rparr>)"
  using assms
  by (simp add: generate_classes_json_def json_dump_def to_json_minimal_config Let_def
      writable_def split: option.splits sum.splits)

text \<open>
  C5, as amended. Where \<open>classes.json\<close> is writable, a descriptor that either
  synthesizer leaves there and that parses as JSON has a \<open>classes\<close> field and both
  thresholds within \<open>[0, 1]\<close>. (The class list itself may be empty, or no list at all.)
\<close>

theorem written_descriptor_fields:
  assumes "writable env w (joinpath (output_path self) ''classes.json'')"
  shows "(files (generate_yolov7_classes_json env self info w)
            (joinpath (output_path self) ''classes.json'') = Some (JsonText j)
          \<or> files (snd (generate_classes_json env self model w))
            (joinpath (output_path self) ''classes.json'') = Some (JsonText j))
         \<longrightarrow> json_get j ''classes'' \<noteq> None
             \<and> (\<exists>t. json_get j ''threshold'' = Some (JNum t) \<and> 0 \<le> t \<and> t \<le> 1)
             \<and> (\<exists>u. json_get j ''iouThreshold'' = Some (JNum u) \<and> 0 \<le> u \<and> u \<le> 1)"
proof (intro impI, erule disjE)
  assume a: "files (generate_yolov7_classes_json env self info w)
            (joinpath (output_path self) ''classes.json'') = Some (JsonText j)"
  from a assms obtain c where "j = JObj [(''classes'', c),
                  (''modelType'', JStr (''yolov7-'' @ variant info)),
                  (''inputSize'', JArr (map (\<lambda>i. JNum (of_int i)) (input_size info))),
                  (''threshold'', JNum (35 / 100)),
                  (''iouThreshold'', JNum (65 / 100)),
                  (''description'',
                     JStr (''YOLOv7 '' @ variant info @ '' model for crop/weed detection'')),
                  (''optimizedFor'', JStr ''agricultural_detection''),
                  (''performance'', JStr (performance (variant info)))]"
    by (auto simp: generate_yolov7_classes_json_files to_json_yolov7_config split: option.splits)
  then have "json_get j ''classes'' \<noteq> None"
    and "json_get j ''threshold'' = Some (JNum (35 / 100))"
    and "json_get j ''iouThreshold'' = Some (JNum (65 / 100))"
    by (simp_all add: json_get_def)
  moreover have "(0::rat) \<le> 35 / 100 \<and> (35 / 100 :: rat) \<le> 1 \<and> (0::rat) \<le> 65 / 100 \<and> (65 / 100 :: rat) \<le> 1"
    by simp
  ultimately show "json_get j ''classes'' \<noteq> None
             \<and> (\<exists>t. json_get j ''threshold'' = Some (JNum t) \<and> 0 \<le> t \<and> t \<le> 1)
             \<and> (\<exists>u. json_get j ''iouThreshold'' = Some (JNum u) \<and> 0 \<le> u \<and> u \<le> 1)"
    by blast
next
  assume a: "files (snd (generate_classes_json env self model w))
            (joinpath (output_path self) ''classes.json'') = Some (JsonText j)"
  from a assms have "(\<exists>c. j = JObj [(''classes'', c),
                  (''modelType'', JStr ''yolov5''),
                  (''inputSize'', JArr [JNum 640, JNum 640]),
                  (''anchors'',
                     JArr [JArr (map JNum [10, 13, 16, 30, 33, 23]),
                           JArr (map JNum [30, 61, 62, 45, 59, 119]),
                           JArr (map JNum [116, 90, 156, 198, 373, 326])]),
                  (''strides'', JArr (map JNum [8, 16, 32])),
                  (''threshold'', JNum (5 / 10)),
                  (''iouThreshold'', JNum (45 / 100))])
        \<or> j = JObj [(''classes'', JArr [JStr ''weed'', JStr ''crop'']),
                 (''modelType'', JStr ''yolo''),
                 (''inputSize'', JArr [JNum 640, JNum 640]),
                 (''threshold'', JNum (5 / 10)),
                 (''iouThreshold'', JNum (45 / 100))]"
    by (auto simp: generate_classes_json_files to_json_generic_config to_json_minimal_config Let_def
        split: option.splits sum.splits)
  then have "json_get j ''classes'' \<noteq> None"
    and "json_get j ''threshold'' = Some (JNum (5 / 10))"
    and "json_get j ''iouThreshold'' = Some (JNum (45 / 100))"
    by (auto simp: json_get_def)
  moreover have "(0::rat) \<le> 5 / 10 \<and> (5 / 10 :: rat) \<le> 1 \<and> (0::rat) \<le> 45 / 100 \<and> (45 / 100 :: rat) \<le> 1"
    by simp
  ultimately show "json_get j ''classes'' \<noteq> None
             \<and> (\<exists>t. json_get j ''threshold'' = Some (JNum t) \<and> 0 \<le> t \<and> t \<le> 1)
             \<and> (\<exists>u. json_get j ''iouThreshold'' = Some (JNum u) \<and> 0 \<le> u \<and> u \<le> 1)"
    by blast
qed

lemma example_classes_path:
  "joinpath (output_path example_converter) ''classes.json'' = [''models'', ''weeds'', ''classes.json'']"
  by (simp add: example_converter_def joinpath_def)

theorem written_descriptor_fields_witness:
  "\<exists>j. files (generate_yolov7_classes_json quiet_env example_converter default_info
               (init_state Map.empty)) [''models'', ''weeds'', ''classes.json''] = Some (JsonText j)
       \<and> json_get j ''classes'' = Some (JArr [JStr ''crop'', JStr ''weed''])
       \<and> (\<exists>t. json_get j ''threshold'' = Some (JNum t) \<and> 0 \<le> t \<and> t \<le> 1)
       \<and> (\<exists>u. json_get j ''iouThreshold'' = Some (JNum u) \<and> 0 \<le> u \<and> u \<le> 1)"
proof -
  let ?w = "init_state Map.empty"
  have d: "writable quiet_env ?w (joinpath (output_path example_converter) ''classes.json'')"
    by (simp add: writable_def init_state_def quiet_env_def)
  obtain j where j: "files (generate_yolov7_classes_json quiet_env example_converter default_info ?w)
           (joinpath (output_path example_converter) ''classes.json'') = Some (JsonText j)"
     and c: "json_get j ''classes'' = Some (JArr [JStr ''crop'', JStr ''weed''])"
    by (simp add: generate_yolov7_classes_json_files to_json_yolov7_config quiet_env_def
        init_state_def default_info_def json_get_def writable_def)
  from written_descriptor_fields [OF d, of default_info j] j c
  show ?thesis unfolding example_classes_path by blast
qed

text \<open>
  C5 as stated fails: for a loaded model without a \<open>names\<close> attribute
  \<open>_generate_classes_json\<close> takes \<open>[]\<close>, and the descriptor it writes has an empty
  class list.
\<close>

theorem empty_class_list_counterexample:
  "\<exists>j. files (snd (generate_classes_json quiet_env example_converter nameless_model
                    (init_state Map.empty))) [''models'', ''weeds'', ''classes.json'']
          = Some (JsonText j)
       \<and> json_get j ''classes'' = Some (JArr [])"
  by (simp add: generate_classes_json_def json_dump_def to_json_generic_config
      nameless_model_def values_or_self_def py_len_def quiet_env_def init_state_def
      example_converter_def joinpath_def json_get_def writable_def)

text \<open>
  C3 at a failing input. Given class names \<open>json\<close> cannot encode,
  \<open>_generate_yolov7_classes_json\<close> returns normally but leaves an unfinished
  \<open>classes.json\<close> that does not parse, and writes no minimal descriptor; on the same
  class names \<open>_generate_classes_json\<close> does write the minimal descriptor.
\<close>

theorem yolov7_synthesizer_leaves_partial_file:
  "generate_yolov7_classes_json quiet_env example_converter unencodable_info (init_state Map.empty)
     = \<lparr>files = [[''models'', ''weeds'', ''classes.json''] \<mapsto> Partial],
        temp_onnx_path = None, events = []\<rparr>
   \<and> json_load Partial = Inl JSONDecodeError
   \<and> generate_classes_json quiet_env example_converter tensor_names_model (init_state Map.empty)
     = (Inr (),
        \<lparr>files = [[''models'', ''weeds'', ''classes.json''] \<mapsto>
                    JsonText (JObj [(''classes'', JArr [JStr ''weed'', JStr ''crop'']),
                                    (''modelType'', JStr ''yolo''),
                                    (''inputSize'', JArr [JNum 640, JNum 640]),
                                    (''threshold'', JNum (5 / 10)),
                                    (''iouThreshold'', JNum (45 / 100))])],
         temp_onnx_path = None, events = []\<rparr>)"
  by (simp add: generate_yolov7_classes_json_def generate_classes_json_def json_dump_def
      to_json_yolov7_config to_json_generic_config to_json_minimal_config
      unencodable_info_def tensor_names_model_def default_info_def values_or_self_def
      quiet_env_def init_state_def example_converter_def joinpath_def json_load_def
      writable_def)

section \<open>What the validator accepts\<close>

lemma validate_model_iff:
  "validate_model fs model_path \<longleftrightarrow>
     (\<exists>g config. fs (joinpath model_path ''model.json'') = Some (JsonText g)
        \<and> fs (joinpath model_path ''classes.json'') = Some (JsonText config)
        \<and> json_contains ''classes'' config = Inr True)"
  by (auto simp: validate_model_def json_load_def split: option.splits sum.splits node.splits)

lemma json_contains_object:
  "json_contains k (JObj kvs) = Inr (json_get (JObj kvs) k \<noteq> None)"
  by (simp add: json_contains_def json_get_def map_of_eq_None_iff)

text \<open>
  C6 at a failing input. \<open>'classes' in config\<close> is also true of a JSON array with the
  string \<open>"classes"\<close> among its elements: the validator accepts a directory whose
  \<open>classes.json\<close> is \<open>["classes"]\<close>, which has no \<open>classes\<close> field.
\<close>

theorem validate_model_accepts_array:
  "validate_model converted_disk [''models'', ''weeds'']
   \<and> converted_disk [''models'', ''weeds'', ''model.json''] = Some (JsonText (JObj []))
   \<and> converted_disk [''models'', ''weeds'', ''classes.json''] = Some (JsonText (JArr [JStr ''classes'']))
   \<and> json_get (JArr [JStr ''classes'']) ''classes'' = None"
  by (simp add: validate_model_def converted_disk_def joinpath_def json_load_def
      json_contains_def json_get_def)

section \<open>Effects of the operations on the disk\<close>

lemma emit_simps [simp]:
  "files (emit e w) = files w"
  "temp_onnx_path (emit e w) = temp_onnx_path w"
  "events (emit e w) = events w @ [e]"
  by (simp_all add: emit_def)

lemma touches_refl [simp]: "touches S w w"
  by (simp add: touches_def)

lemma touches_trans: "touches S w w1 \<Longrightarrow> touches S w1 w2 \<Longrightarrow> touches S w w2"
  by (simp add: touches_def)

lemma touches_mono: "touches S w w' \<Longrightarrow> S \<subseteq> T \<Longrightarrow> touches T w w'"
  by (auto simp: touches_def)

lemma touches_step: "touches S w w1 \<Longrightarrow> touches T w1 w2 \<Longrightarrow> touches (S \<union> T) w w2"
  by (auto simp: touches_def)

lemma touches_temp_onnx_path [simp]: "touches S w (w\<lparr>temp_onnx_path := t\<rparr>)"
  by (simp add: touches_def)

lemma temp_pt_with_suffix:
  "with_suffix (joinpath out ''temp_model.pt'') ''.onnx'' = joinpath out ''temp_model.onnx''"
  by (simp add: with_suffix_def joinpath_def path_parent_def path_stem_def path_name_def)

lemma rename_self:
  "rename env p p w = (if files w p = None then (Inl OSError, w) else (Inr (), w))"
  by (simp add: rename_def)

lemma json_dump_touches:
  "json_dump env p obj w = (r, w') \<Longrightarrow> touches {p} w w' \<and> temp_onnx_path w' = temp_onnx_path w"
  by (auto simp: json_dump_def touches_def split: option.splits if_splits)

lemma torch_save_to_touches:
  "torch_save_to env obj p w = (r, w') \<Longrightarrow> touches {p} w w' \<and> temp_onnx_path w' = temp_onnx_path w"
  by (auto simp: torch_save_to_def touches_def split: option.splits if_splits)

lemma unlink_touches:
  "unlink env p w = (r, w') \<Longrightarrow> touches {p} w w' \<and> temp_onnx_path w' = temp_onnx_path w"
  by (auto simp: unlink_def touches_def split: if_splits)

lemma export_touches:
  "export env model imgsz w = (r, w') \<Longrightarrow>
     touches {with_suffix (source model) ''.onnx''} w w' \<and> temp_onnx_path w' = temp_onnx_path w"
  by (auto simp: export_def touches_def split: sum.splits if_splits)

lemma convert_onnx_touches:
  "convert_onnx env self p w = (r, w') \<Longrightarrow>
     touches {joinpath (output_path self) ''model.json''} w w' \<and> temp_onnx_path w' = temp_onnx_path w"
  by (auto simp: convert_onnx_def touches_def Let_def split: option.splits if_splits)

lemma generate_yolov7_touches:
  "touches {joinpath (output_path self) ''classes.json''} w (generate_yolov7_classes_json env self info w)
   \<and> temp_onnx_path (generate_yolov7_classes_json env self info w) = temp_onnx_path w"
  by (auto simp: generate_yolov7_classes_json_def split: prod.splits sum.splits dest: json_dump_touches)

lemma generate_classes_touches:
  "generate_classes_json env self model w = (r, w') \<Longrightarrow>
     touches {joinpath (output_path self) ''classes.json''} w w' \<and> temp_onnx_path w' = temp_onnx_path w"
  by (auto simp: generate_classes_json_def Let_def split: prod.splits sum.splits
      dest!: json_dump_touches intro: touches_trans)


lemma body_touches:
  assumes "ultralytics_export_body env self info (joinpath (output_path self) ''temp_model.pt'') w = (r, w')"
  shows "touches {joinpath (output_path self) ''temp_model.onnx'',
                  joinpath (output_path self) ''model.json'',
                  joinpath (output_path self) ''classes.json''} w w'
         \<and> (w' = w \<or> temp_onnx_path w' = Some (joinpath (output_path self) ''temp_model.onnx''))"
  using assms
  unfolding ultralytics_export_body_def Let_def temp_pt_with_suffix rename_self
  by (auto split: sum.splits prod.splits if_splits
      dest!: export_touches convert_onnx_touches
      simp: touches_def temp_pt_with_suffix generate_yolov7_touches [unfolded touches_def])


lemma torch_save_to_Inr:
  "torch_save_to env obj p w = (Inr u, w') \<Longrightarrow> files w' p = Some Binary \<and> \<not> denied env p"
  by (auto simp: torch_save_to_def writable_def split: option.splits if_splits)

lemma torch_save_to_Inl:
  "torch_save_to env obj p w = (Inl e, w') \<Longrightarrow>
     w' = w \<or> (torch_save env obj = Some e \<and> w' = w\<lparr>files := (files w)(p \<mapsto> Binary)\<rparr>)"
  by (auto simp: torch_save_to_def split: option.splits if_splits)

lemma unlink_Inr:
  "unlink env p w = (Inr u, w') \<Longrightarrow> files w' p = None"
  by (auto simp: unlink_def split: if_splits)

lemma unlink_Inl:
  "unlink env p w = (Inl e, w') \<Longrightarrow> w' = w \<and> (files w p = None \<or> \<not> writable env w p)"
  by (auto simp: unlink_def split: if_splits)

lemma export_cases:
  assumes "export env model imgsz w = (r, w')"
  shows "w' = w
         \<or> (writable env w (with_suffix (source model) ''.onnx'')
            \<and> w' = w\<lparr>files := (files w)(with_suffix (source model) ''.onnx'' \<mapsto> Binary)\<rparr>)"
  using assms by (auto simp: export_def split: sum.splits if_splits)

text \<open>The exported ONNX file appears only where it may be removed again.\<close>

lemma body_onnx_file:
  assumes "ultralytics_export_body env self info (joinpath (output_path self) ''temp_model.pt'') w = (r, w')"
  shows "files w' (joinpath (output_path self) ''temp_model.onnx'')
           = files w (joinpath (output_path self) ''temp_model.onnx'')
         \<or> (\<not> denied env (joinpath (output_path self) ''temp_model.onnx'')
            \<and> files w' (joinpath (output_path self) ''temp_model.onnx'') = Some Binary)"
  using assms
  unfolding ultralytics_export_body_def Let_def temp_pt_with_suffix rename_self
  by (auto split: sum.splits prod.splits if_splits
      dest!: export_cases convert_onnx_touches
      simp: touches_def temp_pt_with_suffix writable_def joinpath_def
        generate_yolov7_touches [unfolded touches_def])

lemma strategy_ultralytics_export_touches:
  assumes "strategy_ultralytics_export env self checkpoint info w = (r, w')"
  shows "touches {joinpath (output_path self) ''temp_model.pt'',
                  joinpath (output_path self) ''temp_model.onnx'',
                  joinpath (output_path self) ''model.json'',
                  joinpath (output_path self) ''classes.json''} w w'"
    and "temp_onnx_path w' = Some (joinpath (output_path self) ''temp_model.onnx'')
         \<or> (temp_onnx_path w' = temp_onnx_path w
            \<and> files w' (joinpath (output_path self) ''temp_model.onnx'')
                = files w (joinpath (output_path self) ''temp_model.onnx''))"
    and "files w' (joinpath (output_path self) ''temp_model.pt'') = None
         \<or> files w' (joinpath (output_path self) ''temp_model.pt'')
             = files w (joinpath (output_path self) ''temp_model.pt'')
         \<or> (\<exists>obj e. torch_save env obj = Some e)"
    and "files w' (joinpath (output_path self) ''temp_model.onnx'')
           = files w (joinpath (output_path self) ''temp_model.onnx'')
         \<or> (\<not> denied env (joinpath (output_path self) ''temp_model.onnx'')
            \<and> files w' (joinpath (output_path self) ''temp_model.onnx'') = Some Binary)"
proof -
  let ?tp = "joinpath (output_path self) ''temp_model.pt''"
  let ?to = "joinpath (output_path self) ''temp_model.onnx''"
  let ?S = "{?tp, ?to, joinpath (output_path self) ''model.json'',
             joinpath (output_path self) ''classes.json''}"
  have ne: "?tp \<noteq> ?to" "?tp \<noteq> joinpath (output_path self) ''model.json''"
    "?tp \<noteq> joinpath (output_path self) ''classes.json''"
    by (simp_all add: joinpath_def)
  consider (unchanged) "w' = w"
    | (unsaved) obj e where "torch_save env obj = Some e"
        "w' = w\<lparr>files := (files w)(?tp \<mapsto> Binary)\<rparr>"
    | (ran) obj u w1 r2 w2 where "torch_save_to env obj ?tp w = (Inr u, w1)"
        "ultralytics_export_body env self info ?tp w1 = (r2, w2)"
        "if exists w2 ?tp then (\<exists>r3. unlink env ?tp w2 = (r3, w')) else w' = w2"
    using assms unfolding strategy_ultralytics_export_def Let_def
    by (auto split: option.splits prod.splits sum.splits if_splits dest!: torch_save_to_Inl)
  then have "touches ?S w w'
     \<and> (temp_onnx_path w' = Some ?to
         \<or> (temp_onnx_path w' = temp_onnx_path w \<and> files w' ?to = files w ?to))
     \<and> (files w' ?tp = None \<or> files w' ?tp = files w ?tp \<or> (\<exists>obj e. torch_save env obj = Some e))
     \<and> (files w' ?to = files w ?to \<or> (\<not> denied env ?to \<and> files w' ?to = Some Binary))"
  proof cases
    case unchanged
    then show ?thesis by simp
  next
    case unsaved
    have "touches ?S w w'"
      using assms by (auto simp: unsaved(2) touches_def)
    moreover have "temp_onnx_path w' = temp_onnx_path w" "files w' ?to = files w ?to"
      using ne by (simp_all add: unsaved(2))
    ultimately show ?thesis using unsaved(1) by blast
  next
    case ran
    note s = torch_save_to_touches [OF ran(1)] and b = body_touches [OF ran(2)]
    have w1: "files w1 ?tp = Some Binary" and nd: "\<not> denied env ?tp"
      using torch_save_to_Inr [OF ran(1)] by simp_all
    have w2: "files w2 ?tp = Some Binary"
      using b w1 ne by (auto simp: touches_def)
    then obtain r3 where r3: "unlink env ?tp w2 = (r3, w')"
      using ran(3) by (auto simp: exists_def)
    note k = unlink_touches [OF r3]
    have t: "touches ?S w w'"
      using s b k by (auto simp: touches_def)
    have o: "temp_onnx_path w' = Some ?to
         \<or> (temp_onnx_path w' = temp_onnx_path w \<and> files w' ?to = files w ?to)"
      using s b k ne by (auto simp: touches_def)
    have p: "files w' ?tp = None"
      using r3 w2 nd by (cases r3) (auto dest: unlink_Inr unlink_Inl simp: writable_def)
    have "files w1 ?to = files w ?to" "files w' ?to = files w2 ?to"
      using s k ne by (auto simp: touches_def)
    with body_onnx_file [OF ran(2)]
    have f: "files w' ?to = files w ?to \<or> (\<not> denied env ?to \<and> files w' ?to = Some Binary)"
      by auto
    from t o p f show ?thesis by blast
  qed
  then show "touches ?S w w'"
    and "temp_onnx_path w' = Some ?to
         \<or> (temp_onnx_path w' = temp_onnx_path w \<and> files w' ?to = files w ?to)"
    and "files w' ?tp = None \<or> files w' ?tp = files w ?tp \<or> (\<exists>obj e. torch_save env obj = Some e)"
    and "files w' ?to = files w ?to \<or> (\<not> denied env ?to \<and> files w' ?to = Some Binary)"
    by blast+
qed

lemma generate_yolov7_frame:
  "temp_onnx_path (generate_yolov7_classes_json env self info w) = temp_onnx_path w"
  "events (generate_yolov7_classes_json env self info w) = events w"
  "q \<noteq> joinpath (output_path self) ''classes.json'' \<Longrightarrow>
     files (generate_yolov7_classes_json env self info w) q = files w q"
  using generate_yolov7_touches [of self w env info] by (auto simp: touches_def)

lemma classes_model_json_distinct:
  "joinpath out ''classes.json'' \<noteq> joinpath out ''model.json''"
  "joinpath out ''model.json'' \<noteq> joinpath out ''classes.json''"
  by (simp_all add: joinpath_def)

text \<open>The fallback strategy, exactly.\<close>

lemma strategy_fallback_conversion_eq:
  "strategy_fallback_conversion env self checkpoint info w =
     (let w1 = generate_yolov7_classes_json env self (enhanced_model_info checkpoint info) w in
      if writable env w (joinpath (output_path self) ''model.json'')
      then (Inr True,
            w1\<lparr>files := (files w1)(joinpath (output_path self) ''model.json''
                              \<mapsto> JsonText (the (to_json placeholder_model)))\<rparr>)
      else (Inl OSError, w1))"
proof -
  have "writable env (generate_yolov7_classes_json env self (enhanced_model_info checkpoint info) w)
          (joinpath (output_path self) ''model.json'')
        = writable env w (joinpath (output_path self) ''model.json'')"
    by (simp add: writable_def generate_yolov7_frame classes_model_json_distinct)
  then show ?thesis
    by (simp add: strategy_fallback_conversion_def json_dump_def Let_def to_json_placeholder_model)
qed

lemma strategy_fallback_conversion_touches:
  assumes "strategy_fallback_conversion env self checkpoint info w = (r, w')"
  shows "touches {joinpath (output_path self) ''classes.json'',
                  joinpath (output_path self) ''model.json''} w w'"
    and "temp_onnx_path w' = temp_onnx_path w"
  using assms generate_yolov7_touches [of self w env "enhanced_model_info checkpoint info"]
  by (auto simp: strategy_fallback_conversion_eq Let_def touches_def split: if_splits)

section \<open>The strategy chain\<close>

lemma run_strategies_invariant:
  assumes "\<And>nm strat w r w'. (nm, strat) \<in> set strategies \<Longrightarrow> Q w \<Longrightarrow>
              strat checkpoint info w = (r, w') \<Longrightarrow> Q w'"
      and "\<And>e w. Q w \<Longrightarrow> Q (emit e w)"
      and "Q w"
      and "run_strategies i n strategies checkpoint info w = (success, w')"
  shows "Q w'"
  using assms
proof (induction strategies arbitrary: i w)
  case Nil
  then show ?case by simp
next
  case (Cons a rest)
  obtain nm strat where a: "a = (nm, strat)" by (cases a)
  obtain r w1 where r: "strat checkpoint info (emit (Trying i n nm) w) = (r, w1)"
    by (cases "strat checkpoint info (emit (Trying i n nm) w)")
  have q1: "Q w1"
    using Cons.prems(1) [of nm strat "emit (Trying i n nm) w" r w1] Cons.prems(2,3) a r by simp
  have step: "\<And>w2. Q w2 \<Longrightarrow> run_strategies (Suc i) n rest checkpoint info w2 = (success, w') \<Longrightarrow> Q w'"
    using Cons.IH [of _ "Suc i"] Cons.prems(1,2) by (meson list.set_intros(2))
  show ?case
  proof (cases r)
    case (Inl e)
    with Cons.prems(4) a r have "run_strategies (Suc i) n rest checkpoint info (emit (Failed i e) w1) = (success, w')"
      by simp
    with step [of "emit (Failed i e) w1"] q1 Cons.prems(2) show ?thesis by blast
  next
    case (Inr b)
    show ?thesis
    proof (cases b)
      case True
      with Cons.prems(4) a r Inr have "w' = emit (Succeeded i) w1" by simp
      with q1 Cons.prems(2) show ?thesis by blast
    next
      case False
      with Cons.prems(4) a r Inr have "run_strategies (Suc i) n rest checkpoint info w1 = (success, w')"
        by simp
      with step [of w1] q1 show ?thesis by blast
    qed
  qed
qed

lemma run_strategies_trace:
  assumes "\<And>nm strat w r w'. (nm, strat) \<in> set strategies \<Longrightarrow>
              strat checkpoint info w = (r, w') \<Longrightarrow> events w' = events w"
      and "run_strategies i n strategies checkpoint info w = (success, w')"
  shows "\<exists>outcomes. length outcomes \<le> length strategies
           \<and> events w' = events w @ chain_trace i n (map fst strategies) outcomes
           \<and> (strategies \<noteq> [] \<longrightarrow> outcomes \<noteq> []
                \<and> hd outcomes = fst (snd (hd strategies) checkpoint info
                                         (emit (Trying i n (fst (hd strategies))) w)))
           \<and> (\<forall>r \<in> set (butlast outcomes). r \<noteq> Inr True)
           \<and> (success \<longleftrightarrow> outcomes \<noteq> [] \<and> last outcomes = Inr True)
           \<and> (\<not> success \<longrightarrow> length outcomes = length strategies)"
  using assms
proof (induction strategies arbitrary: i w)
  case Nil
  then show ?case by simp
next
  case (Cons a rest)
  obtain nm strat where a: "a = (nm, strat)" by (cases a)
  obtain r w1 where r: "strat checkpoint info (emit (Trying i n nm) w) = (r, w1)"
    by (cases "strat checkpoint info (emit (Trying i n nm) w)")
  have e1: "events w1 = events w @ [Trying i n nm]"
    using Cons.prems(1) [of nm strat "emit (Trying i n nm) w" r w1] a r by simp
  have h: "r = fst (snd (hd (a # rest)) checkpoint info (emit (Trying i n (fst (hd (a # rest)))) w))"
    using a r by simp
  have pres: "\<And>nm strat w r w'. (nm, strat) \<in> set rest \<Longrightarrow>
              strat checkpoint info w = (r, w') \<Longrightarrow> events w' = events w"
    using Cons.prems(1) by (meson list.set_intros(2))
  show ?case
  proof (cases "r = Inr True")
    case True
    with Cons.prems(2) a r have "success" "w' = emit (Succeeded i) w1" by simp_all
    with e1 True a h have "length [r] \<le> length (a # rest)
           \<and> events w' = events w @ chain_trace i n (map fst (a # rest)) [r]
           \<and> (a # rest \<noteq> [] \<longrightarrow> [r] \<noteq> []
                \<and> hd [r] = fst (snd (hd (a # rest)) checkpoint info
                                   (emit (Trying i n (fst (hd (a # rest)))) w)))
           \<and> (\<forall>x \<in> set (butlast [r]). x \<noteq> Inr True)
           \<and> (success \<longleftrightarrow> [r] \<noteq> [] \<and> last [r] = Inr True)
           \<and> (\<not> success \<longrightarrow> length [r] = length (a # rest))"
      by simp
    then show ?thesis by blast
  next
    case False
    define w2 where "w2 = (case r of Inl e \<Rightarrow> emit (Failed i e) w1 | Inr b \<Rightarrow> w1)"
    have run: "run_strategies (Suc i) n rest checkpoint info w2 = (success, w')"
      using Cons.prems(2) a r False by (cases r) (auto simp: w2_def)
    have e2: "events w2 = events w @ attempt_events i n nm r"
      using e1 False by (cases r) (auto simp: w2_def)
    have "\<exists>outcomes. length outcomes \<le> length rest
           \<and> events w' = events w2 @ chain_trace (Suc i) n (map fst rest) outcomes
           \<and> (rest \<noteq> [] \<longrightarrow> outcomes \<noteq> []
                \<and> hd outcomes = fst (snd (hd rest) checkpoint info
                                         (emit (Trying (Suc i) n (fst (hd rest))) w2)))
           \<and> (\<forall>r \<in> set (butlast outcomes). r \<noteq> Inr True)
           \<and> (success \<longleftrightarrow> outcomes \<noteq> [] \<and> last outcomes = Inr True)
           \<and> (\<not> success \<longrightarrow> length outcomes = length rest)"
      by (rule Cons.IH [of "Suc i" w2]) (use pres run in blast)+
    then obtain outcomes where o:
      "length outcomes \<le> length rest"
      "events w' = events w2 @ chain_trace (Suc i) n (map fst rest) outcomes"
      "\<forall>x \<in> set (butlast outcomes). x \<noteq> Inr True"
      "success \<longleftrightarrow> outcomes \<noteq> [] \<and> last outcomes = Inr True"
      "\<not> success \<longrightarrow> length outcomes = length rest"
      by blast
    have b: "\<forall>x \<in> set (butlast (r # outcomes)). x \<noteq> Inr True"
      using o(3) False by (cases outcomes) auto
    have l: "success \<longleftrightarrow> r # outcomes \<noteq> [] \<and> last (r # outcomes) = Inr True"
      using o(4) False by (cases outcomes) auto
    have "length (r # outcomes) \<le> length (a # rest)
           \<and> events w' = events w @ chain_trace i n (map fst (a # rest)) (r # outcomes)
           \<and> (a # rest \<noteq> [] \<longrightarrow> r # outcomes \<noteq> []
                \<and> hd (r # outcomes) = fst (snd (hd (a # rest)) checkpoint info
                                   (emit (Trying i n (fst (hd (a # rest)))) w)))
           \<and> (\<forall>x \<in> set (butlast (r # outcomes)). x \<noteq> Inr True)
           \<and> (success \<longleftrightarrow> r # outcomes \<noteq> [] \<and> last (r # outcomes) = Inr True)
           \<and> (\<not> success \<longrightarrow> length (r # outcomes) = length (a # rest))"
      using o(1,2,5) e2 a b l h by simp
    then show ?thesis by blast
  qed
qed

lemma conversion_strategies_events:
  assumes "(nm, strat) \<in> set (conversion_strategies env self)"
      and "strat checkpoint info w = (r, w')"
  shows "events w' = events w"
  using assms
  by (auto simp: conversion_strategies_def strategy_direct_onnx_export_def
      strategy_manual_reconstruction_def touches_def
      dest!: strategy_ultralytics_export_touches(1) strategy_fallback_conversion_touches(1))

text \<open>
  C2. The conversion of a loaded checkpoint, written out in the four strategies. Each
  strategy is started, under its number and name, in the state the one before it left:
  \<open>_strategy_ultralytics_export\<close> first, then \<open>_strategy_direct_onnx_export\<close>, then
  \<open>_strategy_manual_reconstruction\<close>, then \<open>_strategy_fallback_conversion\<close>, and
  \<open>r1\<close> to \<open>r4\<close> are what they return or raise there. The conversion ends with the
  first of them that returns true, as a success and in the state that strategy left, so
  that no later strategy has run; a strategy that raises (any exception) or returns false
  is followed by the next one; and the conversion fails only when none of the four has
  returned true.
\<close>

theorem strategy_chain_order:
  assumes "torch_load env (input_path self) = Inr checkpoint"
      and "info = extract_yolov7_info (input_path self) checkpoint"
      and "strategy_ultralytics_export env self checkpoint info
             (emit (Trying 1 4 ''_strategy_ultralytics_export'') w) = (r1, w1)"
      and "strategy_direct_onnx_export env self checkpoint info
             (emit (Trying 2 4 ''_strategy_direct_onnx_export'') (after_failure 1 r1 w1)) = (r2, w2)"
      and "strategy_manual_reconstruction env self checkpoint info
             (emit (Trying 3 4 ''_strategy_manual_reconstruction'') (after_failure 2 r2 w2)) = (r3, w3)"
      and "strategy_fallback_conversion env self checkpoint info
             (emit (Trying 4 4 ''_strategy_fallback_conversion'') (after_failure 3 r3 w3)) = (r4, w4)"
  shows "convert_yolov7_checkpoint env self w =
           (if r1 = Inr True then (Inr True, emit (Succeeded 1) w1)
            else if r2 = Inr True then (Inr True, emit (Succeeded 2) w2)
            else if r3 = Inr True then (Inr True, emit (Succeeded 3) w3)
            else if r4 = Inr True then (Inr True, emit (Succeeded 4) w4)
            else (Inr False,
                  generate_yolov7_classes_json env self info
                    (emit AllFailed (after_failure 4 r4 w4))))"
proof -
  have n: "Suc 1 = 2" "Suc 2 = 3" "Suc 3 = 4"
    by simp_all
  have step: "run_strategies i 4 ((nm, strat) # rest) checkpoint info v =
          (if r = Inr True then (True, emit (Succeeded i) v')
           else run_strategies (Suc i) 4 rest checkpoint info (after_failure i r v'))"
    if "strat checkpoint info (emit (Trying i 4 nm) v) = (r, v')" for i nm strat rest v r v'
    using that by (cases r) (simp_all add: after_failure_def)
  have "run_strategies 1 4 (conversion_strategies env self) checkpoint info w =
          (if r1 = Inr True then (True, emit (Succeeded 1) w1)
           else if r2 = Inr True then (True, emit (Succeeded 2) w2)
           else if r3 = Inr True then (True, emit (Succeeded 3) w3)
           else if r4 = Inr True then (True, emit (Succeeded 4) w4)
           else (False, after_failure 4 r4 w4))"
    unfolding conversion_strategies_def
    by (simp only: n run_strategies.simps(1)
        step [where strat = "strategy_ultralytics_export env self" and i = 1, OF assms(3)]
        step [where strat = "strategy_direct_onnx_export env self" and i = 2, OF assms(4)]
        step [where strat = "strategy_manual_reconstruction env self" and i = 3, OF assms(5)]
        step [where strat = "strategy_fallback_conversion env self" and i = 4, OF assms(6)])
  then show ?thesis
    by (simp add: convert_yolov7_checkpoint_def assms(1) assms(2) [symmetric])
qed

lemma working_strategy:
  "fst (strategy_ultralytics_export working_env example_converter
          [''model'' \<mapsto> PObject True,
           ''names'' \<mapsto> PDict [(KInt 0, PStr ''crop''), (KInt 1, PStr ''weed'')]]
          (extract_yolov7_info (input_path example_converter)
             [''model'' \<mapsto> PObject True,
              ''names'' \<mapsto> PDict [(KInt 0, PStr ''crop''), (KInt 1, PStr ''weed'')]])
          (emit (Trying 1 4 ''_strategy_ultralytics_export'') (init_state empty_output_disk)))
   = Inr True"
  by (simp add: strategy_ultralytics_export_def ultralytics_export_body_def
      model_checkpoint_of_def torch_save_to_def export_def rename_def convert_onnx_def
      generate_yolov7_classes_json_def json_dump_def unlink_def exists_def writable_def
      py_index0_def py_len_def values_or_self_def extract_yolov7_info_def default_info_def
      to_json_yolov7_config emit_def empty_output_disk_def
      working_env_def quiet_env_def example_converter_def init_state_def
      joinpath_def with_suffix_def path_parent_def path_stem_def path_name_def path_suffix_def
      lower_def lower_char_def Let_def)

theorem strategy_chain_order_witness:
  "fst (convert_yolov7_checkpoint quiet_env example_converter (init_state empty_output_disk))
     = Inr True
   \<and> events (snd (convert_yolov7_checkpoint quiet_env example_converter
                     (init_state empty_output_disk)))
      = [Trying 1 4 ''_strategy_ultralytics_export'', Failed 1 ValueError,
         Trying 2 4 ''_strategy_direct_onnx_export'', Failed 2 NotImplementedError,
         Trying 3 4 ''_strategy_manual_reconstruction'', Failed 3 NotImplementedError,
         Trying 4 4 ''_strategy_fallback_conversion'', Succeeded 4]
   \<and> fst (convert_yolov7_checkpoint working_env example_converter (init_state empty_output_disk))
     = Inr True
   \<and> events (snd (convert_yolov7_checkpoint working_env example_converter
                     (init_state empty_output_disk)))
      = [Trying 1 4 ''_strategy_ultralytics_export'', Succeeded 1]"
proof -
  let ?w0 = "init_state empty_output_disk"
  let ?info = "extract_yolov7_info (input_path example_converter) Map.empty"
  let ?t1 = "emit (Trying 1 4 ''_strategy_ultralytics_export'') ?w0"
  let ?t2 = "emit (Trying 2 4 ''_strategy_direct_onnx_export'')
               (after_failure 1 (Inl ValueError) ?t1)"
  let ?t3 = "emit (Trying 3 4 ''_strategy_manual_reconstruction'')
               (after_failure 2 (Inl NotImplementedError) ?t2)"
  let ?t4 = "emit (Trying 4 4 ''_strategy_fallback_conversion'')
               (after_failure 3 (Inl NotImplementedError) ?t3)"
  let ?s4 = "strategy_fallback_conversion quiet_env example_converter Map.empty ?info ?t4"
  have l: "torch_load quiet_env (input_path example_converter) = Inr Map.empty"
    by (simp add: quiet_env_def)
  have s1: "strategy_ultralytics_export quiet_env example_converter Map.empty ?info ?t1
              = (Inl ValueError, ?t1)"
    by (simp add: strategy_ultralytics_export_def)
  have s2: "strategy_direct_onnx_export quiet_env example_converter Map.empty ?info ?t2
              = (Inl NotImplementedError, ?t2)"
    by (simp add: strategy_direct_onnx_export_def)
  have s3: "strategy_manual_reconstruction quiet_env example_converter Map.empty ?info ?t3
              = (Inl NotImplementedError, ?t3)"
    by (simp add: strategy_manual_reconstruction_def)
  have s4: "?s4 = (fst ?s4, snd ?s4)"
    by simp
  have r4: "fst ?s4 = Inr True"
    by (simp add: strategy_fallback_conversion_eq Let_def writable_def quiet_env_def
        init_state_def empty_output_disk_def example_converter_def joinpath_def after_failure_def)
  have e4: "events (snd ?s4) = events ?t4"
    using strategy_fallback_conversion_touches(1) [OF s4] by (simp add: touches_def)
  from strategy_chain_order [OF l refl s1 s2 s3 s4] r4
  have a: "convert_yolov7_checkpoint quiet_env example_converter ?w0
             = (Inr True, emit (Succeeded 4) (snd ?s4))"
    by simp
  let ?c = "[''model'' \<mapsto> PObject True,
             ''names'' \<mapsto> PDict [(KInt 0, PStr ''crop''), (KInt 1, PStr ''weed'')]]"
  let ?i = "extract_yolov7_info (input_path example_converter) ?c"
  let ?u1 = "strategy_ultralytics_export working_env example_converter ?c ?i ?t1"
  let ?u2 = "strategy_direct_onnx_export working_env example_converter ?c ?i
               (emit (Trying 2 4 ''_strategy_direct_onnx_export'')
                  (after_failure 1 (fst ?u1) (snd ?u1)))"
  let ?u3 = "strategy_manual_reconstruction working_env example_converter ?c ?i
               (emit (Trying 3 4 ''_strategy_manual_reconstruction'')
                  (after_failure 2 (fst ?u2) (snd ?u2)))"
  let ?u4 = "strategy_fallback_conversion working_env example_converter ?c ?i
               (emit (Trying 4 4 ''_strategy_fallback_conversion'')
                  (after_failure 3 (fst ?u3) (snd ?u3)))"
  have m: "torch_load working_env (input_path example_converter) = Inr ?c"
    by (simp add: working_env_def quiet_env_def)
  have u1: "?u1 = (fst ?u1, snd ?u1)" and u2: "?u2 = (fst ?u2, snd ?u2)"
    and u3: "?u3 = (fst ?u3, snd ?u3)" and u4: "?u4 = (fst ?u4, snd ?u4)"
    by simp_all
  have f1: "events (snd ?u1) = events ?t1"
    using strategy_ultralytics_export_touches(1) [OF u1] by (simp add: touches_def)
  from strategy_chain_order [OF m refl u1 u2 u3 u4] working_strategy
  have b: "convert_yolov7_checkpoint working_env example_converter ?w0
             = (Inr True, emit (Succeeded 1) (snd ?u1))"
    by simp
  have e4': "events (snd ?s4) =
               [Trying 1 4 ''_strategy_ultralytics_export'', Failed 1 ValueError,
                Trying 2 4 ''_strategy_direct_onnx_export'', Failed 2 NotImplementedError,
                Trying 3 4 ''_strategy_manual_reconstruction'', Failed 3 NotImplementedError,
                Trying 4 4 ''_strategy_fallback_conversion'']"
    unfolding e4 by (simp add: after_failure_def init_state_def)
  have f1': "events (snd ?u1) = [Trying 1 4 ''_strategy_ultralytics_export'']"
    unfolding f1 by (simp add: init_state_def)
  have "events (snd (convert_yolov7_checkpoint quiet_env example_converter ?w0))
      = [Trying 1 4 ''_strategy_ultralytics_export'', Failed 1 ValueError,
         Trying 2 4 ''_strategy_direct_onnx_export'', Failed 2 NotImplementedError,
         Trying 3 4 ''_strategy_manual_reconstruction'', Failed 3 NotImplementedError,
         Trying 4 4 ''_strategy_fallback_conversion'', Succeeded 4]"
    unfolding a snd_conv emit_simps e4' by simp
  moreover have "events (snd (convert_yolov7_checkpoint working_env example_converter ?w0))
      = [Trying 1 4 ''_strategy_ultralytics_export'', Succeeded 1]"
    unfolding b snd_conv emit_simps f1' by simp
  moreover have "fst (convert_yolov7_checkpoint quiet_env example_converter ?w0) = Inr True"
    unfolding a by simp
  moreover have "fst (convert_yolov7_checkpoint working_env example_converter ?w0) = Inr True"
    unfolding b by simp
  ultimately show ?thesis by (intro conjI)
qed

section \<open>Checkpoints without model data\<close>

lemma strategy_ultralytics_export_no_model_data:
  assumes "checkpoint ''model'' = None" "checkpoint ''ema'' = None" "checkpoint ''state_dict'' = None"
  shows "strategy_ultralytics_export env self checkpoint info w = (Inl ValueError, w)"
  using assms by (simp add: strategy_ultralytics_export_def)

text \<open>The chain for a checkpoint without model data: three raises, then the fallback.\<close>

lemma run_strategies_no_model_data:
  assumes "checkpoint ''model'' = None" "checkpoint ''ema'' = None" "checkpoint ''state_dict'' = None"
  shows "run_strategies 1 4 (conversion_strategies env self) checkpoint info w =
     (case strategy_fallback_conversion env self checkpoint info
             (w\<lparr>events := events w @
                 [Trying 1 4 ''_strategy_ultralytics_export'', Failed 1 ValueError,
                  Trying 2 4 ''_strategy_direct_onnx_export'', Failed 2 NotImplementedError,
                  Trying 3 4 ''_strategy_manual_reconstruction'', Failed 3 NotImplementedError,
                  Trying 4 4 ''_strategy_fallback_conversion'']\<rparr>) of
        (Inr success, w4) \<Rightarrow> if success then (True, emit (Succeeded 4) w4) else (False, w4)
      | (Inl e, w4) \<Rightarrow> (False, emit (Failed 4 e) w4))"
  by (simp add: conversion_strategies_def strategy_ultralytics_export_no_model_data [OF assms]
      strategy_direct_onnx_export_def strategy_manual_reconstruction_def emit_def
      numeral_2_eq_2 numeral_3_eq_3 eval_nat_numeral split: prod.splits sum.splits)

lemma mkdir_each_cases:
  assumes "mkdir_each env ds w = (r, w')"
  shows "temp_onnx_path w' = temp_onnx_path w \<and> events w' = events w
         \<and> (\<forall>q. q \<notin> set ds \<longrightarrow> files w' q = files w q)
         \<and> (\<forall>q. files w' q = files w q \<or> files w' q = Some Directory)"
  using assms
proof (induction env ds w rule: mkdir_each.induct)
  case (1 env w)
  then show ?case by simp
next
  case (2 env d ds w)
  show ?case
  proof (cases "files w d = Some Directory")
    case True
    with 2 show ?thesis by auto
  next
    case False
    show ?thesis
    proof (cases "files w d \<noteq> None \<or> denied env d")
      case True
      with False 2(3) show ?thesis by auto
    next
      case stop: False
      let ?v = "w\<lparr>files := (files w)(d \<mapsto> Directory)\<rparr>"
      from False stop 2(3) have "mkdir_each env ds ?v = (r, w')" by simp
      from 2(2) [OF False stop this]
      have "temp_onnx_path w' = temp_onnx_path ?v" "events w' = events ?v"
        and f: "\<forall>q. q \<notin> set ds \<longrightarrow> files w' q = files ?v q"
        and g: "\<forall>q. files w' q = files ?v q \<or> files w' q = Some Directory"
        by blast+
      then have "temp_onnx_path w' = temp_onnx_path w" "events w' = events w" by simp_all
      moreover from f have "\<forall>q. q \<notin> set (d # ds) \<longrightarrow> files w' q = files w q" by simp
      moreover have "\<forall>q. files w' q = files w q \<or> files w' q = Some Directory"
      proof
        fix q
        from g have "files w' q = files ?v q \<or> files w' q = Some Directory" ..
        then show "files w' q = files w q \<or> files w' q = Some Directory"
          by (cases "q = d") auto
      qed
      ultimately show ?thesis by blast
    qed
  qed
qed

text \<open>Making the output directory changes nothing but the path and its ancestors.\<close>

lemma mkdir_cases:
  assumes "mkdir env p w = (r, w')"
  shows "temp_onnx_path w' = temp_onnx_path w \<and> events w' = events w
         \<and> (\<forall>q. \<not> prefix q p \<longrightarrow> files w' q = files w q)
         \<and> (\<forall>q. files w' q = files w q \<or> files w' q = Some Directory)"
proof (cases "files w p = Some Directory")
  case True
  with assms show ?thesis by (simp add: mkdir_def)
next
  case False
  with assms have e: "mkdir_each env (tl (prefixes p)) w = (r, w')"
    by (simp add: mkdir_def)
  have "q \<notin> set (tl (prefixes p))" if "\<not> prefix q p" for q
  proof
    assume "q \<in> set (tl (prefixes p))"
    then have "q \<in> set (prefixes p)"
      by (cases "prefixes p") simp_all
    with that show False by (simp add: in_set_prefixes)
  qed
  with mkdir_each_cases [OF e] show ?thesis by blast
qed

lemma not_prefix_joinpath: "\<not> prefix (joinpath out x) out"
  by (auto simp: joinpath_def dest: prefix_length_le)

lemma output_path_distinct:
  "out \<noteq> joinpath out x" "joinpath out x \<noteq> out"
  by (simp_all add: joinpath_def)

text \<open>
  The conversion of a checkpoint without model data, once it is loaded: success with the
  placeholder graph if \<open>model.json\<close> is writable, and otherwise failure after a second
  try at the metadata.
\<close>

lemma convert_yolov7_checkpoint_no_model_data:
  assumes "torch_load env (input_path self) = Inr checkpoint"
      and "checkpoint ''model'' = None" "checkpoint ''ema'' = None" "checkpoint ''state_dict'' = None"
  shows "convert_yolov7_checkpoint env self w =
     (let info = extract_yolov7_info (input_path self) checkpoint;
          w3 = w\<lparr>events := events w @
                 [Trying 1 4 ''_strategy_ultralytics_export'', Failed 1 ValueError,
                  Trying 2 4 ''_strategy_direct_onnx_export'', Failed 2 NotImplementedError,
                  Trying 3 4 ''_strategy_manual_reconstruction'', Failed 3 NotImplementedError,
                  Trying 4 4 ''_strategy_fallback_conversion'']\<rparr>;
          w4 = generate_yolov7_classes_json env self (enhanced_model_info checkpoint info) w3
      in if writable env w (joinpath (output_path self) ''model.json'')
         then (Inr True,
               emit (Succeeded 4)
                 (w4\<lparr>files := (files w4)(joinpath (output_path self) ''model.json''
                                  \<mapsto> JsonText (the (to_json placeholder_model)))\<rparr>))
         else (Inr False,
               generate_yolov7_classes_json env self info
                 (emit AllFailed (emit (Failed 4 OSError) w4))))"
proof -
  have e: "writable env (w\<lparr>events := es\<rparr>) p = writable env w p" for es p
    by (simp add: writable_def)
  have c: "convert_yolov7_checkpoint env self w =
     (case run_strategies 1 4 (conversion_strategies env self) checkpoint
             (extract_yolov7_info (input_path self) checkpoint) w of
        (success, w1) \<Rightarrow>
          if success then (Inr True, w1)
          else (Inr False,
                generate_yolov7_classes_json env self
                  (extract_yolov7_info (input_path self) checkpoint) (emit AllFailed w1)))"
    by (simp only: convert_yolov7_checkpoint_def assms(1) sum.case Let_def)
  show ?thesis
    unfolding c run_strategies_no_model_data [OF assms(2-4)] strategy_fallback_conversion_eq
    by (simp add: Let_def e)
qed

text \<open>
  The whole conversion of a \<open>.ckpt\<close> input that loads as a mapping without \<open>model\<close>,
  \<open>ema\<close> and \<open>state_dict\<close>: \<open>convert\<close> never raises, and once the output directory
  exists or has been made the chain reaches the fallback strategy. \<open>convert\<close> then
  returns true exactly when \<open>model.json\<close> is writable; in that case the first three
  strategies have raised, the fallback has succeeded, \<open>model.json\<close> holds the
  placeholder graph and \<open>classes.json\<close>, where it is writable, holds what
  \<open>json.dump\<close> made of the metadata: the descriptor, or an unfinished text when the
  class names cannot be encoded.
\<close>

lemma convert_no_model_data:
  assumes "path_suffix (input_path self) = ''.ckpt''"
      and "torch_load env (input_path self) = Inr checkpoint"
      and "checkpoint ''model'' = None"
      and "checkpoint ''ema'' = None"
      and "checkpoint ''state_dict'' = None"
  shows "\<exists>success w'.
           convert env self (init_state fs) = (Inr success, w')
           \<and> (fst (mkdir env (output_path self) (init_state fs)) = Inr () \<longrightarrow>
                Trying 4 4 ''_strategy_fallback_conversion'' \<in> set (events w')
                \<and> (success \<longleftrightarrow>
                      writable env (init_state fs) (joinpath (output_path self) ''model.json''))
                \<and> (writable env (init_state fs) (joinpath (output_path self) ''model.json'') \<longrightarrow>
                     events w' =
                       [Trying 1 4 ''_strategy_ultralytics_export'', Failed 1 ValueError,
                        Trying 2 4 ''_strategy_direct_onnx_export'', Failed 2 NotImplementedError,
                        Trying 3 4 ''_strategy_manual_reconstruction'', Failed 3 NotImplementedError,
                        Trying 4 4 ''_strategy_fallback_conversion'', Succeeded 4]
                     \<and> (\<exists>g. to_json placeholder_model = Some g
                            \<and> files w' (joinpath (output_path self) ''model.json'')
                                = Some (JsonText g))
                     \<and> (writable env (init_state fs) (joinpath (output_path self) ''classes.json'')
                        \<longrightarrow> files w' (joinpath (output_path self) ''classes.json'') =
                              Some (case to_json (yolov7_config
                                           (enhanced_model_info checkpoint
                                              (extract_yolov7_info (input_path self) checkpoint))) of
                                      Some j \<Rightarrow> JsonText j
                                    | None \<Rightarrow> Partial))))"
proof -
  let ?w0 = "init_state fs"
  let ?mj = "joinpath (output_path self) ''model.json''"
  let ?cj = "joinpath (output_path self) ''classes.json''"
  obtain r1 w1 where m: "mkdir env (output_path self) ?w0 = (r1, w1)"
    by (cases "mkdir env (output_path self) ?w0")
  note mk = mkdir_cases [OF m]
  have t1: "temp_onnx_path w1 = None" and e1: "events w1 = []"
    using mk by (simp_all add: init_state_def)
  have f1: "files w1 ?mj = files ?w0 ?mj" "files w1 ?cj = files ?w0 ?cj"
    using mk by (simp_all add: not_prefix_joinpath)
  show ?thesis
  proof (cases r1)
    case (Inl e)
    then have "convert env self ?w0 = (Inr False, w1)"
      using m t1 by (simp add: convert_def convert_dispatch_def)
    with m Inl show ?thesis by auto
  next
    case (Inr u)
    have ne: "path_suffix (input_path self) \<noteq> ''.pt''"
      using assms(1) by simp
    have d: "convert_dispatch env self ?w0 = convert_yolov7_checkpoint env self w1"
      using m Inr ne assms(1) by (simp add: convert_dispatch_def)
    have wm: "writable env w1 ?mj = writable env ?w0 ?mj"
      and wc: "writable env w1 ?cj = writable env ?w0 ?cj"
      using f1 by (simp_all add: writable_def)
    define w3 where "w3 = w1\<lparr>events := events w1 @
                 [Trying 1 4 ''_strategy_ultralytics_export'', Failed 1 ValueError,
                  Trying 2 4 ''_strategy_direct_onnx_export'', Failed 2 NotImplementedError,
                  Trying 3 4 ''_strategy_manual_reconstruction'', Failed 3 NotImplementedError,
                  Trying 4 4 ''_strategy_fallback_conversion'']\<rparr>"
    define info where "info = enhanced_model_info checkpoint
                                  (extract_yolov7_info (input_path self) checkpoint)"
    define w4 where "w4 = generate_yolov7_classes_json env self info w3"
    show ?thesis
    proof (cases "writable env ?w0 ?mj")
      case False
      define w' where "w' = generate_yolov7_classes_json env self
                 (extract_yolov7_info (input_path self) checkpoint)
                 (emit AllFailed (emit (Failed 4 OSError) w4))"
      have c: "convert env self ?w0 = (Inr False, w')"
        using d wm t1 False
        by (simp add: convert_def convert_yolov7_checkpoint_no_model_data [OF assms(2-5)]
            Let_def generate_yolov7_frame w'_def w4_def w3_def info_def)
      have ev: "Trying 4 4 ''_strategy_fallback_conversion'' \<in> set (events w')"
        by (simp add: w'_def w4_def w3_def generate_yolov7_frame)
      from c ev False show ?thesis by auto
    next
      case True
      define w' where "w' = emit (Succeeded 4)
                 (w4\<lparr>files := (files w4)(?mj \<mapsto> JsonText (the (to_json placeholder_model)))\<rparr>)"
      have c: "convert env self ?w0 = (Inr True, w')"
        using d wm t1 True
        by (simp add: convert_def convert_yolov7_checkpoint_no_model_data [OF assms(2-5)]
            Let_def generate_yolov7_frame w'_def w4_def w3_def info_def)
      have ev: "events w' =
                      [Trying 1 4 ''_strategy_ultralytics_export'', Failed 1 ValueError,
                       Trying 2 4 ''_strategy_direct_onnx_export'', Failed 2 NotImplementedError,
                       Trying 3 4 ''_strategy_manual_reconstruction'', Failed 3 NotImplementedError,
                       Trying 4 4 ''_strategy_fallback_conversion'', Succeeded 4]"
        using e1 by (simp add: w'_def w4_def w3_def generate_yolov7_frame)
      then have tr: "Trying 4 4 ''_strategy_fallback_conversion'' \<in> set (events w')"
        by simp
      have g: "\<exists>g. to_json placeholder_model = Some g \<and> files w' ?mj = Some (JsonText g)"
        by (simp add: w'_def to_json_placeholder_model)
      have w3c: "writable env w3 ?cj = writable env ?w0 ?cj" "files w3 = files w1"
        using wc by (simp_all add: w3_def writable_def)
      have cl: "writable env ?w0 ?cj \<longrightarrow> files w' ?cj =
                  Some (case to_json (yolov7_config info) of
                          Some j \<Rightarrow> JsonText j | None \<Rightarrow> Partial)"
        using w3c
        by (simp add: w'_def w4_def generate_yolov7_classes_json_files classes_model_json_distinct)
      from c ev tr g cl True show ?thesis
        unfolding info_def by blast
    qed
  qed
qed

lemma example_paths:
  "input_path example_converter = [''models'', ''weeds.ckpt'']"
  "output_path example_converter = [''models'', ''weeds'']"
  "joinpath (output_path example_converter) ''model.json'' = [''models'', ''weeds'', ''model.json'']"
  "path_suffix (input_path example_converter) = ''.ckpt''"
  by (simp_all add: example_converter_def joinpath_def path_suffix_def path_name_def)

text \<open>
  C1 at a failing input. The checkpoint has no model data and its \<open>names\<close> field is
  a tensor. The chain reaches the fallback strategy after three raises, the fallback
  writes the placeholder \<open>model.json\<close> and reports success, and \<open>convert\<close> returns
  true; but the metadata descriptor it leaves is the unfinished text of
  \<open>_generate_yolov7_classes_json\<close>, which does not parse, and the output directory
  does not validate.
\<close>

theorem fallback_success_with_unfinished_metadata:
  "fst (convert tensor_names_env example_converter (init_state empty_output_disk)) = Inr True
   \<and> events (snd (convert tensor_names_env example_converter (init_state empty_output_disk)))
      = [Trying 1 4 ''_strategy_ultralytics_export'', Failed 1 ValueError,
         Trying 2 4 ''_strategy_direct_onnx_export'', Failed 2 NotImplementedError,
         Trying 3 4 ''_strategy_manual_reconstruction'', Failed 3 NotImplementedError,
         Trying 4 4 ''_strategy_fallback_conversion'', Succeeded 4]
   \<and> files (snd (convert tensor_names_env example_converter (init_state empty_output_disk)))
        [''models'', ''weeds'', ''model.json'']
      = Some (JsonText (JObj
          [(''format'', JStr ''graph-model''),
           (''generatedBy'', JStr ''LaserWeed Converter (Fallback)''),
           (''convertedBy'', JStr ''Manual Configuration''),
           (''modelTopology'',
              JObj [(''note'', JStr ''Model conversion failed - using simple detection'')]),
           (''weightsManifest'', JArr [])]))
   \<and> files (snd (convert tensor_names_env example_converter (init_state empty_output_disk)))
        [''models'', ''weeds'', ''classes.json'']
      = Some Partial
   \<and> json_load Partial = Inl JSONDecodeError
   \<and> \<not> validate_model
          (files (snd (convert tensor_names_env example_converter (init_state empty_output_disk))))
          [''models'', ''weeds'']"
proof -
  let ?w0 = "init_state empty_output_disk"
  let ?c = "[''names'' \<mapsto> PObject False] :: checkpoint"
  let ?x = "convert tensor_names_env example_converter ?w0"
  have l: "torch_load tensor_names_env (input_path example_converter) = Inr ?c"
    by (simp add: tensor_names_env_def quiet_env_def)
  have k: "?c ''model'' = None" "?c ''ema'' = None" "?c ''state_dict'' = None"
    by simp_all
  have m: "mkdir tensor_names_env (output_path example_converter) ?w0 = (Inr (), ?w0)"
    by (simp add: mkdir_def init_state_def empty_output_disk_def example_converter_def)
  have d: "convert_dispatch tensor_names_env example_converter ?w0
             = convert_yolov7_checkpoint tensor_names_env example_converter ?w0"
    by (simp add: convert_dispatch_def m example_paths(4))
  have wm: "writable tensor_names_env ?w0 (joinpath (output_path example_converter) ''model.json'')"
    by (simp add: writable_def tensor_names_env_def quiet_env_def init_state_def
        empty_output_disk_def example_converter_def joinpath_def)
  have cfg: "to_json (yolov7_config (enhanced_model_info ?c info)) = None" for info
    by (simp add: to_json_yolov7_config enhanced_model_info_def)
  have x: "?x = (Inr True,
      \<lparr>files = empty_output_disk
         ([''models'', ''weeds'', ''classes.json''] \<mapsto> Partial,
          [''models'', ''weeds'', ''model.json''] \<mapsto> JsonText (the (to_json placeholder_model))),
       temp_onnx_path = None,
       events = [Trying 1 4 ''_strategy_ultralytics_export'', Failed 1 ValueError,
         Trying 2 4 ''_strategy_direct_onnx_export'', Failed 2 NotImplementedError,
         Trying 3 4 ''_strategy_manual_reconstruction'', Failed 3 NotImplementedError,
         Trying 4 4 ''_strategy_fallback_conversion'', Succeeded 4]\<rparr>)"
    unfolding convert_def d convert_yolov7_checkpoint_no_model_data [OF l k]
    using wm
    by (simp add: Let_def generate_yolov7_classes_json_def json_dump_def cfg py_len_def
        writable_def tensor_names_env_def quiet_env_def init_state_def emit_def
        empty_output_disk_def example_converter_def joinpath_def)
  show ?thesis
    unfolding x
    by (simp add: to_json_placeholder_model validate_model_def json_load_def joinpath_def)
qed

section \<open>When every strategy raises\<close>

lemma failed_in_chain_trace:
  "Failed k e \<in> set (chain_trace i n nms outcomes) \<Longrightarrow>
     \<exists>j. j < length outcomes \<and> k = i + j \<and> outcomes ! j = Inl e"
proof (induction i n nms outcomes rule: chain_trace.induct)
  case (1 i n nm nms r rs)
  show ?case
  proof (cases "Failed k e \<in> set (attempt_events i n nm r)")
    case True
    then have "k = i \<and> r = Inl e"
      by (cases r) (auto split: if_splits)
    then show ?thesis by auto
  next
    case False
    with 1 obtain j where "j < length rs" "k = Suc i + j" "rs ! j = Inl e"
      by auto
    then have "Suc j < length (r # rs) \<and> k = i + Suc j \<and> (r # rs) ! Suc j = Inl e"
      by simp
    then show ?thesis by blast
  qed
qed simp_all

lemma conversion_strategies_no_directory:
  assumes "(nm, strat) \<in> set (conversion_strategies env self)"
      and "files w q \<noteq> Some Directory"
      and "strat checkpoint info w = (r, w')"
  shows "files w' q \<noteq> Some Directory"
  using assms
  by (auto simp: conversion_strategies_def strategy_direct_onnx_export_def
      strategy_manual_reconstruction_def touches_def
      dest!: strategy_ultralytics_export_touches(1) strategy_fallback_conversion_touches(1))

text \<open>
  C10, as amended. If each of the four strategies raised on a loaded \<open>.ckpt\<close>
  checkpoint, the conversion reports failure; and if \<open>classes.json\<close> is writable and
  the class names of the extracted \<open>ModelInfo\<close> can be encoded, \<open>classes.json\<close>
  then holds the descriptor made of the extracted \<open>ModelInfo\<close> (not of the fallback's
  enhanced copy).
\<close>

theorem metadata_after_all_strategies_raise:
  assumes "torch_load env (input_path self) = Inr checkpoint"
      and "info = extract_yolov7_info (input_path self) checkpoint"
      and "convert_yolov7_checkpoint env self (init_state fs) = (r, w')"
      and "\<forall>i \<in> {1, 2, 3, 4}. \<exists>e. Failed i e \<in> set (events w')"
  shows "r = Inr False
       \<and> (writable env (init_state fs) (joinpath (output_path self) ''classes.json'')
          \<and> to_json (classes info) = Some class_names
          \<longrightarrow> files w' (joinpath (output_path self) ''classes.json'') =
                Some (JsonText (JObj
                  [(''classes'', class_names),
                   (''modelType'', JStr (''yolov7-'' @ variant info)),
                   (''inputSize'', JArr (map (\<lambda>i. JNum (of_int i)) (input_size info))),
                   (''threshold'', JNum (35 / 100)),
                   (''iouThreshold'', JNum (65 / 100)),
                   (''description'',
                      JStr (''YOLOv7 '' @ variant info @ '' model for crop/weed detection'')),
                   (''optimizedFor'', JStr ''agricultural_detection''),
                   (''performance'', JStr (performance (variant info)))])))"
proof -
  let ?cj = "joinpath (output_path self) ''classes.json''"
  let ?w0 = "init_state fs"
  obtain success w1 where run:
    "run_strategies 1 4 (conversion_strategies env self) checkpoint info ?w0 = (success, w1)"
    by (cases "run_strategies 1 4 (conversion_strategies env self) checkpoint info ?w0")
  have c: "(r, w') = (if success then (Inr True, w1)
                      else (Inr False,
                            generate_yolov7_classes_json env self info (emit AllFailed w1)))"
    using assms(1,3) run by (simp add: convert_yolov7_checkpoint_def assms(2) [symmetric])
  have "\<exists>outcomes. length outcomes \<le> length (conversion_strategies env self)
           \<and> events w1 = events ?w0 @ chain_trace 1 4 (map fst (conversion_strategies env self)) outcomes
           \<and> (conversion_strategies env self \<noteq> [] \<longrightarrow> outcomes \<noteq> []
                \<and> hd outcomes = fst (snd (hd (conversion_strategies env self)) checkpoint info
                                  (emit (Trying 1 4 (fst (hd (conversion_strategies env self)))) ?w0)))
           \<and> (\<forall>r \<in> set (butlast outcomes). r \<noteq> Inr True)
           \<and> (success \<longleftrightarrow> outcomes \<noteq> [] \<and> last outcomes = Inr True)
           \<and> (\<not> success \<longrightarrow> length outcomes = length (conversion_strategies env self))"
    by (rule run_strategies_trace [OF _ run]) (rule conversion_strategies_events)
  then obtain outcomes where o':
    "length outcomes \<le> length (conversion_strategies env self)
           \<and> events w1 = events ?w0 @ chain_trace 1 4 (map fst (conversion_strategies env self)) outcomes
           \<and> (conversion_strategies env self \<noteq> [] \<longrightarrow> outcomes \<noteq> []
                \<and> hd outcomes = fst (snd (hd (conversion_strategies env self)) checkpoint info
                                  (emit (Trying 1 4 (fst (hd (conversion_strategies env self)))) ?w0)))
           \<and> (\<forall>r \<in> set (butlast outcomes). r \<noteq> Inr True)
           \<and> (success \<longleftrightarrow> outcomes \<noteq> [] \<and> last outcomes = Inr True)
           \<and> (\<not> success \<longrightarrow> length outcomes = length (conversion_strategies env self))"
    ..
  have l4: "length (conversion_strategies env self) = 4"
    by (simp add: conversion_strategies_def)
  have e0: "events ?w0 = []"
    by (simp add: init_state_def)
  have o1: "length outcomes \<le> 4"
    using o' [THEN conjunct1] l4 by simp
  have o2: "events w1 = chain_trace 1 4 (map fst (conversion_strategies env self)) outcomes"
    using o' [THEN conjunct2, THEN conjunct1] e0 by simp
  have o3: "success \<longleftrightarrow> outcomes \<noteq> [] \<and> last outcomes = Inr True"
    using o' [THEN conjunct2, THEN conjunct2, THEN conjunct2, THEN conjunct2, THEN conjunct1] .
  have f4: "\<exists>e. Failed 4 e \<in> set (events w')"
    using assms(4) by simp
  have ns: "\<not> success"
  proof
    assume s: success
    with c have "w' = w1" by simp
    with f4 o2 obtain e where
      "Failed 4 e \<in> set (chain_trace 1 4 (map fst (conversion_strategies env self)) outcomes)"
      by auto
    then obtain j where j: "j < length outcomes" "4 = 1 + j" "outcomes ! j = Inl e"
      by (blast dest: failed_in_chain_trace)
    from j(2) have j3: "j = 3" by simp
    with j(1) o1 have l: "length outcomes = 4" by simp
    then have "outcomes \<noteq> []" by auto
    then have "last outcomes = outcomes ! (length outcomes - 1)"
      by (rule last_conv_nth)
    with l j(3) j3 have "last outcomes = Inl e"
      by simp
    with s o3 show False by simp
  qed
  from c ns have r: "r = Inr False"
    and w': "w' = generate_yolov7_classes_json env self info (emit AllFailed w1)"
    by simp_all
  have "files w' ?cj =
          Some (JsonText (JObj
                  [(''classes'', class_names),
                   (''modelType'', JStr (''yolov7-'' @ variant info)),
                   (''inputSize'', JArr (map (\<lambda>i. JNum (of_int i)) (input_size info))),
                   (''threshold'', JNum (35 / 100)),
                   (''iouThreshold'', JNum (65 / 100)),
                   (''description'',
                      JStr (''YOLOv7 '' @ variant info @ '' model for crop/weed detection'')),
                   (''optimizedFor'', JStr ''agricultural_detection''),
                   (''performance'', JStr (performance (variant info)))]))"
    if wr: "writable env ?w0 ?cj" and enc: "to_json (classes info) = Some class_names"
  proof -
    have nd: "files w1 ?cj \<noteq> Some Directory"
    proof (rule run_strategies_invariant [where Q = "\<lambda>w. files w ?cj \<noteq> Some Directory", OF _ _ _ run])
      show "files ?w0 ?cj \<noteq> Some Directory"
        using wr by (simp add: writable_def)
    next
      fix nm strat and w :: state and r w'
      assume "(nm, strat) \<in> set (conversion_strategies env self)"
        and "files w ?cj \<noteq> Some Directory" and "strat checkpoint info w = (r, w')"
      then show "files w' ?cj \<noteq> Some Directory"
        by (rule conversion_strategies_no_directory)
    next
      fix e and w :: state
      assume "files w ?cj \<noteq> Some Directory"
      then show "files (emit e w) ?cj \<noteq> Some Directory" by simp
    qed
    have w: "writable env (emit AllFailed w1) ?cj"
      using nd wr by (simp add: writable_def)
    show ?thesis
      unfolding w' using w
      by (simp add: generate_yolov7_classes_json_files to_json_yolov7_config enc)
  qed
  with r show ?thesis by blast
qed

theorem metadata_after_all_strategies_raise_witness:
  "fst (convert_yolov7_checkpoint quiet_env example_converter (init_state blocked_model_json_disk))
     = Inr False
   \<and> events (snd (convert_yolov7_checkpoint quiet_env example_converter
                     (init_state blocked_model_json_disk)))
      = [Trying 1 4 ''_strategy_ultralytics_export'', Failed 1 ValueError,
         Trying 2 4 ''_strategy_direct_onnx_export'', Failed 2 NotImplementedError,
         Trying 3 4 ''_strategy_manual_reconstruction'', Failed 3 NotImplementedError,
         Trying 4 4 ''_strategy_fallback_conversion'', Failed 4 OSError, AllFailed]
   \<and> files (snd (convert_yolov7_checkpoint quiet_env example_converter
                    (init_state blocked_model_json_disk))) [''models'', ''weeds'', ''classes.json'']
      = Some (JsonText (JObj
                [(''classes'', JArr [JStr ''crop'', JStr ''weed'']),
                 (''modelType'', JStr ''yolov7-base''),
                 (''inputSize'', JArr [JNum 640, JNum 640]),
                 (''threshold'', JNum (35 / 100)),
                 (''iouThreshold'', JNum (65 / 100)),
                 (''description'', JStr ''YOLOv7 base model for crop/weed detection''),
                 (''optimizedFor'', JStr ''agricultural_detection''),
                 (''performance'', JStr ''balanced'')]))"
proof -
  let ?w0 = "init_state blocked_model_json_disk"
  let ?x = "convert_yolov7_checkpoint quiet_env example_converter ?w0"
  let ?info = "extract_yolov7_info (input_path example_converter) Map.empty"
  have l: "torch_load quiet_env (input_path example_converter) = Inr Map.empty"
    by (simp add: quiet_env_def)
  have k: "(Map.empty :: checkpoint) ''model'' = None" "(Map.empty :: checkpoint) ''ema'' = None"
    "(Map.empty :: checkpoint) ''state_dict'' = None"
    by simp_all
  have nw: "\<not> writable quiet_env ?w0 (joinpath (output_path example_converter) ''model.json'')"
    by (simp add: writable_def init_state_def blocked_model_json_disk_def example_paths(3))
  have wc: "writable quiet_env ?w0 (joinpath (output_path example_converter) ''classes.json'')"
    by (simp add: writable_def quiet_env_def init_state_def blocked_model_json_disk_def
        example_classes_path)
  have ev: "events (snd ?x) =
              [Trying 1 4 ''_strategy_ultralytics_export'', Failed 1 ValueError,
               Trying 2 4 ''_strategy_direct_onnx_export'', Failed 2 NotImplementedError,
               Trying 3 4 ''_strategy_manual_reconstruction'', Failed 3 NotImplementedError,
               Trying 4 4 ''_strategy_fallback_conversion'', Failed 4 OSError, AllFailed]"
    using nw
    by (simp add: convert_yolov7_checkpoint_no_model_data [OF l k] Let_def generate_yolov7_frame
        init_state_def)
  have a: "\<forall>i \<in> {1, 2, 3, 4}. \<exists>e. Failed i e \<in> set (events (snd ?x))"
    unfolding ev by auto
  have i: "classes ?info = PList [PStr ''crop'', PStr ''weed'']" "variant ?info = ''base''"
    "input_size ?info = [640, 640]"
    by (simp_all add: extract_yolov7_info_def default_info_def example_converter_def
        path_name_def lower_def lower_char_def)
  have enc: "to_json (classes ?info) = Some (JArr [JStr ''crop'', JStr ''weed''])"
    by (simp add: i)
  have x: "?x = (fst ?x, snd ?x)" by simp
  from metadata_after_all_strategies_raise
         [OF l refl x a, where class_names = "JArr [JStr ''crop'', JStr ''weed'']"] wc enc
  have r: "fst ?x = Inr False"
    and f: "files (snd ?x) (joinpath (output_path example_converter) ''classes.json'') =
              Some (JsonText (JObj
                  [(''classes'', JArr [JStr ''crop'', JStr ''weed'']),
                   (''modelType'', JStr (''yolov7-'' @ variant ?info)),
                   (''inputSize'', JArr (map (\<lambda>i. JNum (of_int i)) (input_size ?info))),
                   (''threshold'', JNum (35 / 100)),
                   (''iouThreshold'', JNum (65 / 100)),
                   (''description'',
                      JStr (''YOLOv7 '' @ variant ?info @ '' model for crop/weed detection'')),
                   (''optimizedFor'', JStr ''agricultural_detection''),
                   (''performance'', JStr (performance (variant ?info)))]))"
    by blast+
  from f have f': "files (snd ?x) [''models'', ''weeds'', ''classes.json''] =
      Some (JsonText (JObj
                [(''classes'', JArr [JStr ''crop'', JStr ''weed'']),
                 (''modelType'', JStr ''yolov7-base''),
                 (''inputSize'', JArr [JNum 640, JNum 640]),
                 (''threshold'', JNum (35 / 100)),
                 (''iouThreshold'', JNum (65 / 100)),
                 (''description'', JStr ''YOLOv7 base model for crop/weed detection''),
                 (''optimizedFor'', JStr ''agricultural_detection''),
                 (''performance'', JStr ''balanced'')]))"
    unfolding i example_classes_path by (simp add: performance_def)
  from r ev f' show ?thesis by (intro conjI)
qed

text \<open>
  C10 as stated fails. The fallback raises only when \<open>model.json\<close> cannot be
  written; on a disk where nothing can be written all four strategies raise, the
  conversion fails, and the last attempt at \<open>classes.json\<close> fails silently: the output
  directory stays empty.
\<close>

theorem no_metadata_on_read_only_disk_counterexample:
  "fst (convert_yolov7_checkpoint read_only_env example_converter (init_state empty_output_disk))
     = Inr False
   \<and> events (snd (convert_yolov7_checkpoint read_only_env example_converter
                     (init_state empty_output_disk)))
      = [Trying 1 4 ''_strategy_ultralytics_export'', Failed 1 ValueError,
         Trying 2 4 ''_strategy_direct_onnx_export'', Failed 2 NotImplementedError,
         Trying 3 4 ''_strategy_manual_reconstruction'', Failed 3 NotImplementedError,
         Trying 4 4 ''_strategy_fallback_conversion'', Failed 4 OSError, AllFailed]
   \<and> files (snd (convert_yolov7_checkpoint read_only_env example_converter
                    (init_state empty_output_disk))) [''models'', ''weeds'', ''classes.json'']
      = None"
proof -
  let ?w0 = "init_state empty_output_disk"
  let ?x = "convert_yolov7_checkpoint read_only_env example_converter ?w0"
  have l: "torch_load read_only_env (input_path example_converter) = Inr Map.empty"
    by (simp add: read_only_env_def quiet_env_def)
  have k: "(Map.empty :: checkpoint) ''model'' = None" "(Map.empty :: checkpoint) ''ema'' = None"
    "(Map.empty :: checkpoint) ''state_dict'' = None"
    by simp_all
  have nw: "\<not> writable read_only_env w p" for w p
    by (simp add: writable_def read_only_env_def)
  have g: "generate_yolov7_classes_json read_only_env self info w = w" for self info w
    by (simp add: generate_yolov7_classes_json_def json_dump_def nw)
  have x: "?x = (Inr False,
             emit AllFailed (emit (Failed 4 OSError)
               (?w0\<lparr>events := events ?w0 @
                 [Trying 1 4 ''_strategy_ultralytics_export'', Failed 1 ValueError,
                  Trying 2 4 ''_strategy_direct_onnx_export'', Failed 2 NotImplementedError,
                  Trying 3 4 ''_strategy_manual_reconstruction'', Failed 3 NotImplementedError,
                  Trying 4 4 ''_strategy_fallback_conversion'']\<rparr>)))"
    by (simp add: convert_yolov7_checkpoint_no_model_data [OF l k] Let_def g nw)
  show ?thesis
    unfolding x by (simp add: init_state_def empty_output_disk_def)
qed

section \<open>The interim artifacts\<close>

lemma temp_paths_distinct:
  "joinpath out ''temp_model.pt'' \<noteq> joinpath out ''temp_model.onnx''"
  "joinpath out ''temp_model.pt'' \<noteq> joinpath out ''model.json''"
  "joinpath out ''temp_model.pt'' \<noteq> joinpath out ''classes.json''"
  "joinpath out ''temp_model.onnx'' \<noteq> joinpath out ''model.json''"
  "joinpath out ''temp_model.onnx'' \<noteq> joinpath out ''classes.json''"
  "joinpath out ''temp_model.pt'' \<noteq> out"
  "joinpath out ''temp_model.onnx'' \<noteq> out"
  by (simp_all add: joinpath_def)

lemma exported_not_temp_pt:
  "with_suffix p ''.onnx'' \<noteq> joinpath out ''temp_model.pt''"
proof
  assume "with_suffix p ''.onnx'' = joinpath out ''temp_model.pt''"
  then have "path_stem p @ ''.onnx'' = ''temp_model.pt''"
    by (simp add: with_suffix_def joinpath_def)
  then have "last (path_stem p @ ''.onnx'') = last ''temp_model.pt''"
    by (rule arg_cong)
  then show False by simp
qed

lemma temps_clean_emit [simp]: "temps_clean env self (emit e w) = temps_clean env self w"
  by (simp add: temps_clean_def onnx_tracked_def writable_def split: option.splits)

lemma temps_clean_touches:
  assumes "touches S w w'" and "temp_onnx_path w' = temp_onnx_path w"
      and "joinpath (output_path self) ''temp_model.pt'' \<notin> S"
      and "joinpath (output_path self) ''temp_model.onnx'' \<notin> S"
      and "temps_clean env self w"
  shows "temps_clean env self w'"
  using assms
  by (auto simp: temps_clean_def onnx_tracked_def touches_def writable_def split: option.splits)

lemma strategy_ultralytics_export_clean:
  assumes "temps_clean env self w"
      and "strategy_ultralytics_export env self checkpoint info w = (r, w')"
      and "\<forall>obj. torch_save env obj = None"
  shows "temps_clean env self w'"
proof -
  let ?tp = "joinpath (output_path self) ''temp_model.pt''"
  let ?to = "joinpath (output_path self) ''temp_model.onnx''"
  note s = strategy_ultralytics_export_touches [OF assms(2)]
  have tp: "files w' ?tp = None"
    using s(3) assms(1,3) by (auto simp: temps_clean_def)
  have f: "files w ?to = None \<or> writable env w ?to"
    using assms(1) by (auto simp: temps_clean_def onnx_tracked_def split: option.splits)
  have f': "files w' ?to = None \<or> writable env w' ?to"
    using s(4) f by (auto simp: writable_def)
  have "onnx_tracked env self w'"
    using s(2) f' assms(1) by (auto simp: temps_clean_def onnx_tracked_def split: option.splits)
  with tp show ?thesis by (simp add: temps_clean_def)
qed

lemma conversion_strategies_clean:
  assumes "(nm, strat) \<in> set (conversion_strategies env self)"
      and "temps_clean env self w"
      and "strat checkpoint info w = (r, w')"
      and "\<forall>obj. torch_save env obj = None"
  shows "temps_clean env self w'"
proof -
  from assms(1) consider "strat = strategy_ultralytics_export env self"
    | "strat = strategy_direct_onnx_export env self"
    | "strat = strategy_manual_reconstruction env self"
    | "strat = strategy_fallback_conversion env self"
    by (auto simp: conversion_strategies_def)
  then show ?thesis
  proof cases
    case 1
    with assms(3) have "strategy_ultralytics_export env self checkpoint info w = (r, w')"
      by simp
    from strategy_ultralytics_export_clean [OF assms(2) this assms(4)] show ?thesis .
  next
    case 2
    with assms show ?thesis by (simp add: strategy_direct_onnx_export_def)
  next
    case 3
    with assms show ?thesis by (simp add: strategy_manual_reconstruction_def)
  next
    case 4
    with assms(3) have f: "strategy_fallback_conversion env self checkpoint info w = (r, w')"
      by simp
    show ?thesis
      by (rule temps_clean_touches [OF strategy_fallback_conversion_touches [OF f] _ _ assms(2)])
         (simp_all add: temp_paths_distinct)
  qed
qed

lemma generate_yolov7_clean:
  "temps_clean env self w \<Longrightarrow> temps_clean env self (generate_yolov7_classes_json env self info w)"
  by (rule temps_clean_touches [OF generate_yolov7_touches [THEN conjunct1]
        generate_yolov7_touches [THEN conjunct2]])
     (simp_all add: temp_paths_distinct)

lemma convert_yolov7_checkpoint_clean:
  assumes "temps_clean env self w"
      and "convert_yolov7_checkpoint env self w = (r, w')"
      and "\<forall>obj. torch_save env obj = None"
  shows "temps_clean env self w'"
proof (cases "torch_load env (input_path self)")
  case (Inl e)
  with assms(2) have "w' = w \<or> w' = generate_yolov7_classes_json env self default_info w"
    by (auto simp: convert_yolov7_checkpoint_def convert_yolov7_alternative_def split: sum.splits)
  with assms(1) show ?thesis by (auto intro: generate_yolov7_clean)
next
  case (Inr checkpoint)
  let ?info = "extract_yolov7_info (input_path self) checkpoint"
  obtain success w1 where run:
    "run_strategies 1 4 (conversion_strategies env self) checkpoint ?info w = (success, w1)"
    by (cases "run_strategies 1 4 (conversion_strategies env self) checkpoint ?info w")
  have c1: "temps_clean env self w1"
  proof (rule run_strategies_invariant [where Q = "temps_clean env self", OF _ _ assms(1) run])
    fix nm strat and w :: state and r w'
    assume "(nm, strat) \<in> set (conversion_strategies env self)" "temps_clean env self w"
      "strat checkpoint ?info w = (r, w')"
    then show "temps_clean env self w'"
      using assms(3) by (rule conversion_strategies_clean)
  qed simp
  from assms(2) Inr run
  have "w' = w1 \<or> w' = generate_yolov7_classes_json env self ?info (emit AllFailed w1)"
    by (auto simp: convert_yolov7_checkpoint_def split: if_splits)
  with c1 show ?thesis by (auto intro: generate_yolov7_clean)
qed

lemma rename_cases:
  assumes "rename env src dst w = (r, w')"
  shows "temp_onnx_path w' = temp_onnx_path w \<and> events w' = events w
         \<and> (w' = w
             \<or> (src \<noteq> dst \<and> writable env w dst
                 \<and> \<not> (files w src = Some Directory \<and> strict_prefix src dst)
                 \<and> files w' = (files w)(dst := files w src, src := None)))"
  using assms by (auto simp: rename_def split: if_splits)

lemma convert_onnx_clean:
  assumes "temps_clean env self w" and "convert_onnx env self p w = (b, w')"
  shows "temps_clean env self w'"
  by (rule temps_clean_touches [OF convert_onnx_touches [OF assms(2), THEN conjunct1]
        convert_onnx_touches [OF assms(2), THEN conjunct2] _ _ assms(1)])
     (simp_all add: temp_paths_distinct)

lemma generate_classes_clean:
  assumes "temps_clean env self w" and "generate_classes_json env self model w = (r, w')"
  shows "temps_clean env self w'"
  by (rule temps_clean_touches [OF generate_classes_touches [OF assms(2), THEN conjunct1]
        generate_classes_touches [OF assms(2), THEN conjunct2] _ _ assms(1)])
     (simp_all add: temp_paths_distinct)

text \<open>
  The \<open>.pt\<close> path: the exported file is moved to the tracked name. A directory at the
  exported path would be moved as well, unless the output directory lies in it.
\<close>

lemma convert_pytorch_clean:
  assumes "temps_clean env self w"
      and "files w (with_suffix (input_path self) ''.onnx'') = Some Directory \<longrightarrow>
             prefix (with_suffix (input_path self) ''.onnx'') (output_path self)"
      and "convert_pytorch env self w = (r, w')"
  shows "temps_clean env self w'"
proof (cases "yolo env (input_path self)")
  case (Inl e)
  with assms(1,3) show ?thesis by (simp add: convert_pytorch_def)
next
  case (Inr nm)
  let ?tp = "joinpath (output_path self) ''temp_model.pt''"
  let ?to = "joinpath (output_path self) ''temp_model.onnx''"
  let ?ex = "with_suffix (input_path self) ''.onnx''"
  let ?model = "\<lparr>source = input_path self, names = nm\<rparr>"
  define w1 where "w1 = w\<lparr>temp_onnx_path := Some ?to\<rparr>"
  have c1: "temps_clean env self w1"
    using assms(1)
    by (auto simp: w1_def temps_clean_def onnx_tracked_def writable_def split: option.splits)
  obtain r2 w2 where e: "export env ?model 640 w1 = (r2, w2)"
    by (cases "export env ?model 640 w1")
  note et = export_touches [OF e] and ec = export_cases [OF e]
  have ex_tp: "?ex \<noteq> ?tp" by (rule exported_not_temp_pt)
  have c2: "temps_clean env self w2"
    using c1 ec ex_tp
    by (auto simp: temps_clean_def onnx_tracked_def writable_def w1_def)
  have t2: "temp_onnx_path w2 = Some ?to"
    using et by (simp add: w1_def)
  have d2: "files w2 ?ex = Some Directory \<longrightarrow> prefix ?ex (output_path self)"
    using et assms(2) by (auto simp: touches_def w1_def)
  show ?thesis
  proof (cases r2)
    case (Inl x)
    with assms(3) Inr e have "w' = w2"
      by (simp add: convert_pytorch_def Let_def w1_def)
    with c2 show ?thesis by simp
  next
    case r2: (Inr u)
    obtain r3 w3 where m: "(if exists w2 ?ex then rename env ?ex ?to w2 else (Inr (), w2)) = (r3, w3)"
      by (cases "if exists w2 ?ex then rename env ?ex ?to w2 else (Inr (), w2)")
    have c3: "temps_clean env self w3"
    proof (cases "exists w2 ?ex")
      case False
      with m c2 show ?thesis by simp
    next
      case True
      with m have rn: "rename env ?ex ?to w2 = (r3, w3)" by simp
      note rc = rename_cases [OF rn]
      from rc consider "w3 = w2"
        | "?ex \<noteq> ?to" "\<not> (files w2 ?ex = Some Directory \<and> strict_prefix ?ex ?to)"
          "files w3 = (files w2)(?to := files w2 ?ex, ?ex := None)" "writable env w2 ?to"
        by blast
      then show ?thesis
      proof cases
        case 1
        with c2 show ?thesis by simp
      next
        case 2
        have "files w2 ?ex \<noteq> Some Directory"
        proof
          assume dir: "files w2 ?ex = Some Directory"
          with d2 have "prefix ?ex (output_path self)" by simp
          then have "strict_prefix ?ex ?to"
            by (auto simp: joinpath_def strict_prefix_def dest: prefix_length_le)
          with dir 2(2) show False by simp
        qed
        with 2 rc c2 t2 ex_tp show ?thesis
          by (auto simp: temps_clean_def onnx_tracked_def writable_def temp_paths_distinct)
      qed
    qed
    show ?thesis
    proof (cases r3)
      case (Inl x)
      with assms(3) Inr e r2 m have "w' = w3"
        by (simp add: convert_pytorch_def Let_def w1_def)
      with c3 show ?thesis by simp
    next
      case r3: (Inr u3)
      obtain b w4 where co: "convert_onnx env self ?to w3 = (b, w4)"
        by (cases "convert_onnx env self ?to w3")
      note c4 = convert_onnx_clean [OF c3 co]
      show ?thesis
      proof (cases b)
        case False
        with assms(3) Inr e r2 m r3 co have "w' = w4"
          by (simp add: convert_pytorch_def Let_def w1_def)
        with c4 show ?thesis by simp
      next
        case True
        obtain r5 w5 where g: "generate_classes_json env self ?model w4 = (r5, w5)"
          by (cases "generate_classes_json env self ?model w4")
        from assms(3) Inr e r2 m r3 co True g have "w' = w5"
          by (cases r5) (simp_all add: convert_pytorch_def Let_def w1_def)
        with generate_classes_clean [OF c4 g] show ?thesis by simp
      qed
    qed
  qed
qed

lemma convert_dispatch_clean:
  assumes "temps_clean env self w"
      and "path_suffix (input_path self) = ''.pt'' \<longrightarrow>
             files w (with_suffix (input_path self) ''.onnx'') \<noteq> Some Directory"
      and "convert_dispatch env self w = (r, w')"
      and "\<forall>obj. torch_save env obj = None"
  shows "temps_clean env self w'"
proof -
  obtain r1 w1 where m: "mkdir env (output_path self) w = (r1, w1)"
    by (cases "mkdir env (output_path self) w")
  note mk = mkdir_cases [OF m]
  have "files w1 (joinpath (output_path self) x) = files w (joinpath (output_path self) x)" for x
    using mk by (simp add: not_prefix_joinpath)
  then have c1: "temps_clean env self w1"
    using mk assms(1)
    by (auto simp: temps_clean_def onnx_tracked_def writable_def split: option.splits)
  show ?thesis
  proof (cases r1)
    case (Inl e)
    with assms(3) m c1 show ?thesis by (simp add: convert_dispatch_def)
  next
    case (Inr u)
    consider (pt) "path_suffix (input_path self) = ''.pt''"
      | (ckpt) "path_suffix (input_path self) = ''.ckpt''"
      | (onnx) "path_suffix (input_path self) = ''.onnx''"
      | (other) "path_suffix (input_path self) \<noteq> ''.pt''"
          "path_suffix (input_path self) \<noteq> ''.ckpt''" "path_suffix (input_path self) \<noteq> ''.onnx''"
      by blast
    then show ?thesis
    proof cases
      case pt
      with assms(3) m Inr have p: "convert_pytorch env self w1 = (r, w')"
        by (simp add: convert_dispatch_def)
      have "files w1 (with_suffix (input_path self) ''.onnx'') = Some Directory \<longrightarrow>
             prefix (with_suffix (input_path self) ''.onnx'') (output_path self)"
        using mk assms(2) pt by metis
      from convert_pytorch_clean [OF c1 this p] show ?thesis .
    next
      case ckpt
      with assms(3) m Inr have "convert_yolov7_checkpoint env self w1 = (r, w')"
        by (simp add: convert_dispatch_def)
      from convert_yolov7_checkpoint_clean [OF c1 this assms(4)] show ?thesis .
    next
      case onnx
      with assms(3) m Inr obtain b where "convert_onnx env self (input_path self) w1 = (b, w')"
        by (auto simp: convert_dispatch_def split: prod.splits)
      from convert_onnx_clean [OF c1 this] show ?thesis .
    next
      case other
      with assms(3) m Inr c1 show ?thesis by (simp add: convert_dispatch_def)
    qed
  qed
qed

text \<open>
  The place of \<open>torch.save\<close> before the \<open>try\<close> is the one way an interim file is
  left. Take an environment in which \<open>torch.save\<close> does not raise, and a disk whose
  output directory holds neither \<open>temp_model.pt\<close> nor \<open>temp_model.onnx\<close> and, for a
  \<open>.pt\<close> input, no directory at the place where the exporter leaves its ONNX file.
  Then \<open>convert\<close> returns a value, whatever the input format, the checkpoint and the
  other tools do, and neither file exists afterwards.
\<close>

lemma interim_artifacts_removed_after_saving:
  assumes "\<forall>obj. torch_save env obj = None"
      and "fs (joinpath (output_path self) ''temp_model.pt'') = None"
      and "fs (joinpath (output_path self) ''temp_model.onnx'') = None"
      and "path_suffix (input_path self) = ''.pt'' \<longrightarrow>
             fs (with_suffix (input_path self) ''.onnx'') \<noteq> Some Directory"
  shows "\<exists>success w'.
           convert env self (init_state fs) = (Inr success, w')
           \<and> files w' (joinpath (output_path self) ''temp_model.pt'') = None
           \<and> files w' (joinpath (output_path self) ''temp_model.onnx'') = None"
proof -
  let ?tp = "joinpath (output_path self) ''temp_model.pt''"
  let ?to = "joinpath (output_path self) ''temp_model.onnx''"
  let ?w0 = "init_state fs"
  obtain r w1 where d: "convert_dispatch env self ?w0 = (r, w1)"
    by (cases "convert_dispatch env self ?w0")
  have c0: "temps_clean env self ?w0"
    using assms(2,3) by (simp add: temps_clean_def onnx_tracked_def init_state_def)
  have s0: "path_suffix (input_path self) = ''.pt'' \<longrightarrow>
             files ?w0 (with_suffix (input_path self) ''.onnx'') \<noteq> Some Directory"
    using assms(4) by (simp add: init_state_def)
  note c1 = convert_dispatch_clean [OF c0 s0 d assms(1)]
  define result where "result = (case r of Inl e \<Rightarrow> False | Inr b \<Rightarrow> b)"
  show ?thesis
  proof (cases "temp_onnx_path w1")
    case None
    with d have "convert env self ?w0 = (Inr result, w1)"
      by (simp add: convert_def result_def)
    moreover from None c1 have "files w1 ?tp = None" "files w1 ?to = None"
      by (simp_all add: temps_clean_def onnx_tracked_def)
    ultimately show ?thesis by blast
  next
    case (Some p)
    with c1 have p: "p = ?to" and rm: "files w1 ?to = None \<or> writable env w1 ?to"
      and tp: "files w1 ?tp = None"
      by (auto simp: temps_clean_def onnx_tracked_def)
    show ?thesis
    proof (cases "exists w1 ?to")
      case False
      with d Some p have "convert env self ?w0 = (Inr result, w1)"
        by (simp add: convert_def result_def)
      moreover from False have "files w1 ?to = None" by (simp add: exists_def)
      ultimately show ?thesis using tp by blast
    next
      case True
      define w2 where "w2 = w1\<lparr>files := (files w1)(?to := None)\<rparr>"
      from True rm have "unlink env ?to w1 = (Inr (), w2)"
        by (auto simp: unlink_def exists_def w2_def)
      with d Some p True have "convert env self ?w0 = (Inr result, w2)"
        by (simp add: convert_def result_def)
      moreover have "files w2 ?tp = None" "files w2 ?to = None"
        using tp by (simp_all add: w2_def temp_paths_distinct)
      ultimately show ?thesis by blast
    qed
  qed
qed

text \<open>
  C7 at a failing input. The checkpoint holds a model object that \<open>torch.save\<close>
  cannot pickle. The save stands before the \<open>try\<close> whose \<open>finally\<close> removes
  \<open>temp_model.pt\<close>, so when it raises, the file it has begun is not removed: the
  strategy counts as failed, the chain goes on to the fallback, \<open>convert\<close> returns
  true, and \<open>temp_model.pt\<close> is still on the disk.
\<close>

theorem failed_save_leaves_temp_model_pt:
  "fst (convert unpicklable_env example_converter (init_state empty_output_disk)) = Inr True
   \<and> events (snd (convert unpicklable_env example_converter (init_state empty_output_disk)))
      = [Trying 1 4 ''_strategy_ultralytics_export'', Failed 1 (ExternalError ''PicklingError''),
         Trying 2 4 ''_strategy_direct_onnx_export'', Failed 2 NotImplementedError,
         Trying 3 4 ''_strategy_manual_reconstruction'', Failed 3 NotImplementedError,
         Trying 4 4 ''_strategy_fallback_conversion'', Succeeded 4]
   \<and> temp_onnx_path (snd (convert unpicklable_env example_converter
                             (init_state empty_output_disk))) = None
   \<and> files (snd (convert unpicklable_env example_converter (init_state empty_output_disk)))
        [''models'', ''weeds'', ''temp_model.pt''] = Some Binary"
proof -
  let ?w0 = "init_state empty_output_disk"
  let ?c = "[''model'' \<mapsto> PObject False] :: checkpoint"
  let ?info = "extract_yolov7_info (input_path example_converter) ?c"
  let ?tp = "[''models'', ''weeds'', ''temp_model.pt'']"
  have m: "mkdir unpicklable_env (output_path example_converter) ?w0 = (Inr (), ?w0)"
    by (simp add: mkdir_def init_state_def empty_output_disk_def example_converter_def)
  have d: "convert_dispatch unpicklable_env example_converter ?w0
             = convert_yolov7_checkpoint unpicklable_env example_converter ?w0"
    by (simp add: convert_dispatch_def m example_paths(4))
  have l: "torch_load unpicklable_env (input_path example_converter) = Inr ?c"
    by (simp add: unpicklable_env_def quiet_env_def)
  have s1: "strategy_ultralytics_export unpicklable_env example_converter ?c ?info v
              = (Inl (ExternalError ''PicklingError''), v\<lparr>files := (files v)(?tp \<mapsto> Binary)\<rparr>)"
    if "files v ?tp = None" for v
    using that
    by (simp add: strategy_ultralytics_export_def model_checkpoint_of_def torch_save_to_def
        writable_def unpicklable_env_def quiet_env_def example_converter_def joinpath_def)
  have dn: "denied unpicklable_env p = False" for p
    by (simp add: unpicklable_env_def quiet_env_def)
  obtain j where enc: "to_json (yolov7_config (enhanced_model_info ?c ?info)) = Some j"
    by (simp add: to_json_yolov7_config enhanced_model_info_def extract_yolov7_info_def
        default_info_def example_converter_def path_name_def lower_def lower_char_def)
  have x: "convert_yolov7_checkpoint unpicklable_env example_converter ?w0 =
     (Inr True,
      \<lparr>files = empty_output_disk
         (?tp \<mapsto> Binary,
          [''models'', ''weeds'', ''classes.json''] \<mapsto> JsonText j,
          [''models'', ''weeds'', ''model.json''] \<mapsto> JsonText (the (to_json placeholder_model))),
       temp_onnx_path = None,
       events = [Trying 1 4 ''_strategy_ultralytics_export'', Failed 1 (ExternalError ''PicklingError''),
         Trying 2 4 ''_strategy_direct_onnx_export'', Failed 2 NotImplementedError,
         Trying 3 4 ''_strategy_manual_reconstruction'', Failed 3 NotImplementedError,
         Trying 4 4 ''_strategy_fallback_conversion'', Succeeded 4]\<rparr>)"
    by (simp add: convert_yolov7_checkpoint_def l conversion_strategies_def s1
        strategy_direct_onnx_export_def strategy_manual_reconstruction_def
        strategy_fallback_conversion_def generate_yolov7_classes_json_def json_dump_def
        enc to_json_placeholder_model writable_def dn example_paths(3) example_classes_path
        init_state_def emit_def empty_output_disk_def Let_def
        numeral_2_eq_2 numeral_3_eq_3 eval_nat_numeral split: sum.splits)
  show ?thesis
    unfolding convert_def d x by simp
qed

end
